theory Spec2Isabelle
  imports Complex_Main "HOL-Library.Log_Nat" "HOL-Library.Sublist"
begin

section \<open>Python values and conversions\<close>

text \<open>
  The engine of \<^verbatim>\<open>backend/ml_model.py\<close> receives a raw dictionary and converts its
  entries with the builtins \<^verbatim>\<open>float\<close>, \<^verbatim>\<open>int\<close>, \<^verbatim>\<open>str\<close> and \<^verbatim>\<open>bool\<close>. A conversion
  that raises is a value \<open>Inl e\<close> of the result type.

  Strings are lists of bytes (UTF-8). A Python float is either a finite value, written
  as the rational it denotes, an infinity or NaN. Every comparison with NaN is false.
  The values of a dictionary are the scalars \<^verbatim>\<open>None\<close>, \<^verbatim>\<open>bool\<close>, \<^verbatim>\<open>int\<close>, \<^verbatim>\<open>float\<close>
  and \<^verbatim>\<open>str\<close>.
\<close>

datatype py_error = TypeError | ValueError | OverflowError

datatype pyfloat = Fin rat | PosInf | NegInf | NaN

datatype pyval = PyNone | PyBool bool | PyInt int | PyFloat pyfloat | PyStr string

definition bind_result :: "'e + 'a \<Rightarrow> ('a \<Rightarrow> 'e + 'b) \<Rightarrow> 'e + 'b" where
  "bind_result r k = (case r of Inl e \<Rightarrow> Inl e | Inr v \<Rightarrow> k v)"

subsection \<open>Binary64 rounding\<close>

text \<open>
  \<open>fl x\<close> is the binary64 number nearest to \<open>x\<close>, ties to even: 53 significant
  bits, with the fixed spacing \<open>2 ^ -1074\<close> below \<open>2 ^ -1022\<close>. Overflow is tested
  where a result can be large (\<open>py_float\<close> of an integer).
\<close>

definition pow2 :: "int \<Rightarrow> rat" where
  "pow2 k = (if 0 \<le> k then 2 ^ nat k else 1 / 2 ^ nat (- k))"

definition round_half_even :: "rat \<Rightarrow> int" where
  "round_half_even x =
     (let f = \<lfloor>x\<rfloor>; d = x - of_int f
      in if d < 1 / 2 then f else if 1 / 2 < d then f + 1
         else if even f then f else f + 1)"

definition ilog2 :: "rat \<Rightarrow> int" where
  "ilog2 x =
     (let (p, q) = quotient_of \<bar>x\<bar>; e0 = bitlen p - bitlen q
      in if pow2 e0 \<le> \<bar>x\<bar> then e0 else e0 - 1)"

definition fl :: "rat \<Rightarrow> rat" where
  "fl x =
     (if x = 0 then 0
      else let u = pow2 (max (ilog2 x) (- 1022) - 52)
           in of_int (round_half_even (x / u)) * u)"

definition fmul :: "rat \<Rightarrow> rat \<Rightarrow> rat" where
  "fmul x y = fl (x * y)"

definition fadd :: "rat \<Rightarrow> rat \<Rightarrow> rat" where
  "fadd x y = fl (x + y)"

text \<open>Python's \<^verbatim>\<open>round(x)\<close> of a float, one argument: the nearest integer, ties to even.\<close>

definition py_round :: "rat \<Rightarrow> int" where
  "py_round x = round_half_even x"

subsection \<open>Comparisons of a float with an integer constant\<close>

definition fgt :: "pyfloat \<Rightarrow> int \<Rightarrow> bool" where
  "fgt x c = (case x of Fin r \<Rightarrow> of_int c < r | PosInf \<Rightarrow> True | NegInf \<Rightarrow> False | NaN \<Rightarrow> False)"

definition fge :: "pyfloat \<Rightarrow> int \<Rightarrow> bool" where
  "fge x c = (case x of Fin r \<Rightarrow> of_int c \<le> r | PosInf \<Rightarrow> True | NegInf \<Rightarrow> False | NaN \<Rightarrow> False)"

definition flt :: "pyfloat \<Rightarrow> int \<Rightarrow> bool" where
  "flt x c = (case x of Fin r \<Rightarrow> r < of_int c | PosInf \<Rightarrow> False | NegInf \<Rightarrow> True | NaN \<Rightarrow> False)"

text \<open>
  \<^verbatim>\<open>x % m == 0\<close> for a float \<open>x\<close> and a positive integer \<open>m\<close>: the remainder of a
  finite float is exact, and the remainder of an infinity or of NaN is NaN.
\<close>

definition fmod_is_zero :: "pyfloat \<Rightarrow> int \<Rightarrow> bool" where
  "fmod_is_zero x m =
     (case x of Fin r \<Rightarrow> of_int \<lfloor>r / of_int m\<rfloor> * of_int m = r
      | PosInf \<Rightarrow> False | NegInf \<Rightarrow> False | NaN \<Rightarrow> False)"

subsection \<open>The builtins\<close>

text \<open>
  Four functions of the Python runtime are taken as parameters, since the engine only
  calls them and their tables and grammar are the runtime's: \<^verbatim>\<open>float(s)\<close> and
  \<^verbatim>\<open>int(s)\<close> of a string (\<open>None\<close> where Python raises \<^verbatim>\<open>ValueError\<close>), \<^verbatim>\<open>str(x)\<close> of a
  float, and \<^verbatim>\<open>s.lower()\<close> of a string that holds a character outside ASCII (the
  Unicode case mapping). Every statement below holds for all of them.
\<close>

record builtins =
  float_of_str :: "string \<Rightarrow> pyfloat option"
  int_of_str :: "string \<Rightarrow> int option"
  str_of_float :: "pyfloat \<Rightarrow> string"
  lower_of_str :: "string \<Rightarrow> string"

text \<open>
  An instance for evaluating inputs that pass numbers as numbers and ASCII text as text,
  on which none of the four functions is called.
\<close>

definition plain_builtins :: builtins where
  "plain_builtins =
     \<lparr>float_of_str = (\<lambda>s. None), int_of_str = (\<lambda>s. None), str_of_float = (\<lambda>x. []),
      lower_of_str = (\<lambda>s. s)\<rparr>"

definition py_float :: "builtins \<Rightarrow> pyval \<Rightarrow> py_error + pyfloat" where
  "py_float B v =
     (case v of
        PyNone \<Rightarrow> Inl TypeError
      | PyBool b \<Rightarrow> Inr (Fin (if b then 1 else 0))
      | PyInt i \<Rightarrow>
          (let r = fl (of_int i)
           in if pow2 1024 \<le> \<bar>r\<bar> then Inl OverflowError else Inr (Fin r))
      | PyFloat x \<Rightarrow> Inr x
      | PyStr s \<Rightarrow> (case float_of_str B s of None \<Rightarrow> Inl ValueError | Some x \<Rightarrow> Inr x))"

text \<open>\<^verbatim>\<open>int(x)\<close> truncates a finite float towards zero.\<close>

definition py_int :: "builtins \<Rightarrow> pyval \<Rightarrow> py_error + int" where
  "py_int B v =
     (case v of
        PyNone \<Rightarrow> Inl TypeError
      | PyBool b \<Rightarrow> Inr (if b then 1 else 0)
      | PyInt i \<Rightarrow> Inr i
      | PyFloat x \<Rightarrow>
          (case x of
             Fin r \<Rightarrow> Inr (if 0 \<le> r then \<lfloor>r\<rfloor> else \<lceil>r\<rceil>)
           | PosInf \<Rightarrow> Inl OverflowError
           | NegInf \<Rightarrow> Inl OverflowError
           | NaN \<Rightarrow> Inl ValueError)
      | PyStr s \<Rightarrow> (case int_of_str B s of None \<Rightarrow> Inl ValueError | Some i \<Rightarrow> Inr i))"

function str_nonneg :: "int \<Rightarrow> string" where
  "str_nonneg n =
     (if n < 10 then [''0123456789'' ! nat n]
      else str_nonneg (n div 10) @ [''0123456789'' ! nat (n mod 10)])"
  by pat_completeness auto
termination
  by (relation "measure nat") auto

declare str_nonneg.simps [simp del]

definition str_int :: "int \<Rightarrow> string" where
  "str_int i = (if i < 0 then CHR ''-'' # str_nonneg (- i) else str_nonneg i)"

text \<open>
  \<^verbatim>\<open>str(x)\<close>. CPython converts no integer of more than 4300 decimal digits to a
  string (\<^verbatim>\<open>sys.int_info.default_max_str_digits\<close>): it raises \<^verbatim>\<open>ValueError\<close>.
\<close>

definition INT_MAX_STR_DIGITS :: nat where
  "INT_MAX_STR_DIGITS = 4300"

definition py_str :: "builtins \<Rightarrow> pyval \<Rightarrow> py_error + string" where
  "py_str B v =
     (case v of
        PyNone \<Rightarrow> Inr ''None''
      | PyBool b \<Rightarrow> Inr (if b then ''True'' else ''False'')
      | PyInt i \<Rightarrow>
          (if 10 ^ INT_MAX_STR_DIGITS \<le> \<bar>i\<bar> then Inl ValueError else Inr (str_int i))
      | PyFloat x \<Rightarrow> Inr (str_of_float B x)
      | PyStr s \<Rightarrow> Inr s)"

definition py_bool :: "pyval \<Rightarrow> bool" where
  "py_bool v =
     (case v of
        PyNone \<Rightarrow> False
      | PyBool b \<Rightarrow> b
      | PyInt i \<Rightarrow> i \<noteq> 0
      | PyFloat x \<Rightarrow> x \<noteq> Fin 0
      | PyStr s \<Rightarrow> s \<noteq> [])"

text \<open>
  \<^verbatim>\<open>s.lower()\<close>. In a string of ASCII characters (bytes below 128) the letters A to Z
  are mapped and every other character is kept; any other string is lower-cased by the
  runtime's Unicode tables (\<open>lower_of_str\<close>).
\<close>

definition lower_char :: "char \<Rightarrow> char" where
  "lower_char c =
     (case map_of (zip ''ABCDEFGHIJKLMNOPQRSTUVWXYZ'' ''abcdefghijklmnopqrstuvwxyz'') c of
        None \<Rightarrow> c | Some l \<Rightarrow> l)"

definition is_ascii :: "char \<Rightarrow> bool" where
  "is_ascii c = (\<not> digit7 c)"

definition lower :: "builtins \<Rightarrow> string \<Rightarrow> string" where
  "lower B s = (if list_all is_ascii s then map lower_char s else lower_of_str B s)"

text \<open>\<^verbatim>\<open>data.get(key, default)\<close>.\<close>

definition dict_get :: "(string \<rightharpoonup> pyval) \<Rightarrow> string \<Rightarrow> pyval \<Rightarrow> pyval" where
  "dict_get data key dflt = (case data key of None \<Rightarrow> dflt | Some v \<Rightarrow> v)"

section \<open>Constants\<close>

definition SANCTIONED_COUNTRIES :: "string set" where
  "SANCTIONED_COUNTRIES = {''ir'', ''kp'', ''ru'', ''sy'', ''sd'', ''by'', ''cu'', ''mm''}"

definition HIGH_RISK_COUNTRIES :: "string set" where
  "HIGH_RISK_COUNTRIES =
     {''ir'', ''kp'', ''ru'', ''sy'', ''sd'', ''pk'', ''af'', ''by'', ''cu'', ''mm'',
      ''iq'', ''ly'', ''ye'', ''so''}"

definition REPORTING_THRESHOLD :: int where
  "REPORTING_THRESHOLD = 10000"

definition STRUCTURING_LIMIT :: int where
  "STRUCTURING_LIMIT = 9500"

text \<open>The catalogue \<^verbatim>\<open>FATF_RED_FLAGS\<close>, read with \<^verbatim>\<open>FATF_RED_FLAGS[code]\<close> at codes it holds.\<close>

definition FATF_RED_FLAGS :: "(string \<times> string) list" where
  "FATF_RED_FLAGS =
     [(''sanctioned_country'', ''Transaction to/from FATF sanctioned jurisdiction''),
      (''high_risk_country'', ''Destination is FATF high-risk jurisdiction''),
      (''night_transaction'',
         ''Transaction executed during unusual hours (00:00'' @ [CHR 0xE2, CHR 0x80, CHR 0x93]
           @ ''05:59)''),
      (''threshold_breach'', ''Amount exceeds mandatory reporting threshold ($10,000)''),
      (''structuring_suspected'',
         ''Amount near reporting threshold '' @ [CHR 0xE2, CHR 0x80, CHR 0x94]
           @ '' possible structuring''),
      (''new_account_large'', ''Large transaction from recently opened account''),
      (''high_velocity'', ''Abnormally high transaction frequency in 30-day period''),
      (''incomplete_kyc'', ''Customer identity not fully verified (incomplete KYC)''),
      (''repeat_offender'', ''Customer has prior suspicious activity on record''),
      (''crypto_highrisk'', ''Cryptocurrency transfer to high-risk jurisdiction''),
      (''cash_threshold'', ''Large cash transaction near reporting threshold''),
      (''pep_linked'', ''Customer linked to Politically Exposed Person (PEP)''),
      (''round_amount'', ''Suspiciously round transaction amount''),
      (''multiple_countries'', ''Transactions to multiple countries in short period'')]"

definition red_flag_text :: "string \<Rightarrow> string" where
  "red_flag_text c = (case map_of FATF_RED_FLAGS c of None \<Rightarrow> [] | Some d \<Rightarrow> d)"

section \<open>Feature extraction\<close>

record feature_set =
  amount :: pyfloat
  country :: string
  tx_type :: string
  hour :: int
  tx_count :: int
  account_age :: int
  kyc_status :: int
  prev_flagged :: bool
  is_pep :: bool
  is_sanctioned :: bool
  is_high_risk :: bool
  is_night :: bool
  above_threshold :: bool
  near_threshold :: bool
  is_new_account :: bool
  is_high_velocity :: bool
  is_round_amount :: bool
  kyc_incomplete :: bool

definition make_features ::
  "pyfloat \<Rightarrow> string \<Rightarrow> string \<Rightarrow> int \<Rightarrow> int \<Rightarrow> int \<Rightarrow> int \<Rightarrow> bool \<Rightarrow> bool \<Rightarrow> feature_set" where
  "make_features am co ty ho tc ag ks pf pep =
     \<lparr>amount = am, country = co, tx_type = ty, hour = ho, tx_count = tc,
      account_age = ag, kyc_status = ks, prev_flagged = pf, is_pep = pep,
      is_sanctioned = (co \<in> SANCTIONED_COUNTRIES),
      is_high_risk = (co \<in> HIGH_RISK_COUNTRIES),
      is_night = (ho < 6),
      above_threshold = fge am REPORTING_THRESHOLD,
      near_threshold = (fge am STRUCTURING_LIMIT \<and> flt am REPORTING_THRESHOLD),
      is_new_account = (ag < 3),
      is_high_velocity = (15 < tc),
      is_round_amount = (fgt am 1000 \<and> fmod_is_zero am 1000),
      kyc_incomplete = (ks = 0)\<rparr>"

text \<open>
  \<^verbatim>\<open>extract_features\<close>: the nine conversions in the order of the source, the first one
  that raises ends the call; then the dictionary of features (\<open>make_features\<close>).
  \<^verbatim>\<open>bool(x)\<close> and \<^verbatim>\<open>s.lower()\<close> do not raise.
\<close>

definition extract_features :: "builtins \<Rightarrow> (string \<rightharpoonup> pyval) \<Rightarrow> py_error + feature_set" where
  "extract_features B data =
     bind_result (py_float B (dict_get data ''amount'' (PyInt 0))) (\<lambda>am.
     bind_result (py_str B (dict_get data ''country'' (PyStr ''''))) (\<lambda>co.
     bind_result (py_str B (dict_get data ''type'' (PyStr ''''))) (\<lambda>ty.
     bind_result (py_int B (dict_get data ''hour'' (PyInt 12))) (\<lambda>ho.
     bind_result (py_int B (dict_get data ''tx_count_30d'' (PyInt 0))) (\<lambda>tc.
     bind_result (py_int B (dict_get data ''account_age_months'' (PyInt 12))) (\<lambda>ag.
     bind_result (py_int B (dict_get data ''kyc_status'' (PyInt 1))) (\<lambda>ks.
       let pf = py_bool (dict_get data ''previously_flagged'' (PyBool False));
           pep = py_bool (dict_get data ''is_pep'' (PyBool False))
       in Inr (make_features am (lower B co) (lower B ty) ho tc ag ks pf pep))))))))"

section \<open>The five trees\<close>

text \<open>
  Each tree starts from \<^verbatim>\<open>score = 0.0\<close> and adds integer constants, which a float holds
  exactly, so the running score is the sum of the contributions. \<open>bonus c n\<close> is the
  contribution of \<^verbatim>\<open>if c: score += n\<close>. The value before \<^verbatim>\<open>min(score, 100)\<close> has the
  suffix \<open>_score\<close>.
\<close>

definition bonus :: "bool \<Rightarrow> rat \<Rightarrow> rat" where
  "bonus c n = (if c then n else 0)"

definition tree_sanctions_amount_score :: "feature_set \<Rightarrow> rat" where
  "tree_sanctions_amount_score f =
     (if is_sanctioned f then 45 else if is_high_risk f then 20 else 0)
     + (if fgt (amount f) 100000 then 25
        else if fgt (amount f) 50000 then 18
        else if fgt (amount f) 10000 then 10 else 0)
     + bonus (is_night f) 15
     + bonus (above_threshold f) 10"

definition tree_sanctions_amount :: "feature_set \<Rightarrow> rat" where
  "tree_sanctions_amount f = min (tree_sanctions_amount_score f) 100"

definition tree_account_behavior_score :: "feature_set \<Rightarrow> rat" where
  "tree_account_behavior_score f =
     bonus (is_new_account f) 30
     + bonus (is_high_velocity f) 20
     + bonus (prev_flagged f) 30
     + bonus (kyc_incomplete f) 25
     + bonus (is_pep f) 20
     + bonus (is_round_amount f) 10"

definition tree_account_behavior :: "feature_set \<Rightarrow> rat" where
  "tree_account_behavior f = min (tree_account_behavior_score f) 100"

definition tree_type_country_combo_score :: "feature_set \<Rightarrow> rat" where
  "tree_type_country_combo_score f =
     bonus (tx_type f = ''crypto'' \<and> is_high_risk f) 55
     + bonus (tx_type f = ''cash'' \<and> near_threshold f) 40
     + bonus (tx_type f = ''wire'' \<and> is_sanctioned f) 50
     + bonus (tx_type f = ''insurance'' \<and> fgt (amount f) 100000) 25
     + bonus (tx_type f = ''crypto'' \<and> is_sanctioned f) 60
     + bonus (is_high_risk f \<and> is_night f) 20"

definition tree_type_country_combo :: "feature_set \<Rightarrow> rat" where
  "tree_type_country_combo f = min (tree_type_country_combo_score f) 100"

definition tree_kyc_velocity_score :: "feature_set \<Rightarrow> rat" where
  "tree_kyc_velocity_score f =
     bonus (kyc_incomplete f \<and> fgt (amount f) 5000) 40
     + bonus (is_high_velocity f \<and> is_new_account f) 40
     + bonus (prev_flagged f \<and> fgt (amount f) 10000) 35
     + bonus (is_pep f \<and> above_threshold f) 30
     + bonus (near_threshold f) 15"

definition tree_kyc_velocity :: "feature_set \<Rightarrow> rat" where
  "tree_kyc_velocity f = min (tree_kyc_velocity_score f) 100"

definition risk_signals :: "feature_set \<Rightarrow> bool list" where
  "risk_signals f =
     [is_night f, is_new_account f, fgt (amount f) 25000, is_high_risk f,
      prev_flagged f, kyc_incomplete f, is_high_velocity f, is_pep f]"

text \<open>\<^verbatim>\<open>sum(risk_signals)\<close> counts the signals that are true.\<close>

definition sum_signals :: "bool list \<Rightarrow> int" where
  "sum_signals bs = int (length (filter (\<lambda>b. b) bs))"

definition tree_anomaly_isolation_score :: "feature_set \<Rightarrow> int" where
  "tree_anomaly_isolation_score f =
     (let combo_score = sum_signals (risk_signals f) * 12
      in if 4 \<le> sum_signals (risk_signals f) then combo_score + 15 else combo_score)"

definition tree_anomaly_isolation :: "feature_set \<Rightarrow> rat" where
  "tree_anomaly_isolation f = of_int (min (tree_anomaly_isolation_score f) 100)"

section \<open>The ensemble\<close>

record prediction =
  score :: int
  risk_level :: string
  trees :: "(string \<times> int) list"

text \<open>
  The dictionary \<^verbatim>\<open>trees\<close> in insertion order; the weights are the floats that the
  literals 0.25, 0.20 and 0.15 denote.
\<close>

definition forest :: "feature_set \<Rightarrow> (string \<times> rat \<times> rat) list" where
  "forest f =
     [(''Sanctions & Amount'', tree_sanctions_amount f, fl (25 / 100)),
      (''Account Behavior'', tree_account_behavior f, fl (20 / 100)),
      (''Type & Country Combo'', tree_type_country_combo f, fl (25 / 100)),
      (''KYC & Velocity'', tree_kyc_velocity f, fl (15 / 100)),
      (''Anomaly Detection'', tree_anomaly_isolation f, fl (15 / 100))]"

text \<open>
  \<^verbatim>\<open>sum(score * weight for ...)\<close>: float products added from the left, starting at 0.
  CPython from version 3.12 adds to this sum a correction for the rounding of its
  additions; the correction is 0 where no addition rounds, which is so in the two
  scenarios evaluated below (\<open>products_A\<close>, \<open>products_B\<close>: the products are
  multiples of a quarter).
\<close>

definition weighted_score :: "feature_set \<Rightarrow> rat" where
  "weighted_score f = foldl (\<lambda>acc (name, s, w). fadd acc (fmul s w)) 0 (forest f)"

definition random_forest_predict :: "feature_set \<Rightarrow> prediction" where
  "random_forest_predict f =
     (let final_score = py_round (min (weighted_score f) 100)
      in \<lparr>score = final_score,
          risk_level =
            (if 80 \<le> final_score then ''CRITICAL''
             else if 60 \<le> final_score then ''HIGH''
             else if 35 \<le> final_score then ''MEDIUM''
             else ''LOW''),
          trees = map (\<lambda>(name, s, w). (name, py_round s)) (forest f)\<rparr>)"

section \<open>Flag detection\<close>

record flag =
  code :: string
  severity :: string
  description :: string
  fatf_ref :: string

definition mk_flag :: "string \<Rightarrow> string \<Rightarrow> string \<Rightarrow> flag" where
  "mk_flag c sev ref =
     \<lparr>code = c, severity = sev, description = red_flag_text c, fatf_ref = ref\<rparr>"

definition clean_flag :: flag where
  "clean_flag =
     \<lparr>code = ''clean'', severity = ''NONE'',
      description = ''No significant FATF red flags detected'', fatf_ref = ''N/A''\<rparr>"

text \<open>\<open>flag_if c x\<close> is the effect of \<^verbatim>\<open>if c: flags.append(x)\<close> on the list.\<close>

definition flag_if :: "bool \<Rightarrow> flag \<Rightarrow> flag list" where
  "flag_if c x = (if c then [x] else [])"

definition red_flags :: "feature_set \<Rightarrow> flag list" where
  "red_flags f =
     flag_if (is_sanctioned f)
       (mk_flag ''sanctioned_country'' ''CRITICAL'' ''FATF Recommendation 6'')
     @ flag_if (is_high_risk f \<and> \<not> is_sanctioned f)
       (mk_flag ''high_risk_country'' ''HIGH'' ''FATF Recommendation 19'')
     @ flag_if (is_night f)
       (mk_flag ''night_transaction'' ''MEDIUM'' ''FATF Typologies Report 2023'')
     @ flag_if (above_threshold f)
       (mk_flag ''threshold_breach'' ''HIGH'' ''FRA Law 161/2024 Art. 14'')
     @ flag_if (near_threshold f)
       (mk_flag ''structuring_suspected'' ''HIGH'' ''FATF Recommendation 3'')
     @ flag_if (is_new_account f \<and> fgt (amount f) 5000)
       (mk_flag ''new_account_large'' ''HIGH'' ''FATF Recommendation 10'')
     @ flag_if (is_high_velocity f)
       (mk_flag ''high_velocity'' ''MEDIUM'' ''FATF Typologies Report 2023'')
     @ flag_if (kyc_incomplete f)
       (mk_flag ''incomplete_kyc'' ''HIGH'' ''FATF Recommendation 10'')
     @ flag_if (prev_flagged f)
       (mk_flag ''repeat_offender'' ''HIGH'' ''FRA Law 161/2024 Art. 18'')
     @ flag_if (tx_type f = ''crypto'' \<and> is_high_risk f)
       (mk_flag ''crypto_highrisk'' ''CRITICAL'' ''FATF Recommendation 15'')
     @ flag_if (is_pep f)
       (mk_flag ''pep_linked'' ''HIGH'' ''FATF Recommendation 12'')
     @ flag_if (is_round_amount f \<and> fgt (amount f) 5000)
       (mk_flag ''round_amount'' ''LOW'' ''FATF Typologies Report 2023'')"

definition detect_flags :: "feature_set \<Rightarrow> flag list" where
  "detect_flags f = (let flags = red_flags f in if flags = [] then [clean_flag] else flags)"

text \<open>The conditions of the twelve tests of \<^verbatim>\<open>detect_flags\<close>, in their order.\<close>

definition red_flag_conditions :: "feature_set \<Rightarrow> bool list" where
  "red_flag_conditions f =
     [is_sanctioned f,
      is_high_risk f \<and> \<not> is_sanctioned f,
      is_night f,
      above_threshold f,
      near_threshold f,
      is_new_account f \<and> fgt (amount f) 5000,
      is_high_velocity f,
      kyc_incomplete f,
      prev_flagged f,
      tx_type f = ''crypto'' \<and> is_high_risk f,
      is_pep f,
      is_round_amount f \<and> fgt (amount f) 5000]"

section \<open>Recommended action\<close>

record recommendation =
  action :: string
  steps :: "string list"
  str_required :: bool
  edd_required :: bool

definition low_action :: recommendation where
  "low_action =
     \<lparr>action = ''PROCEED '' @ [CHR 0xE2, CHR 0x80, CHR 0x94] @ '' STANDARD MONITORING'',
      steps =
        [''Transaction may proceed'',
         ''Apply standard CDD procedures'',
         ''Continue routine monitoring''],
      str_required = False, edd_required = False\<rparr>"

definition actions :: "(string \<times> recommendation) list" where
  "actions =
     [(''CRITICAL'',
       \<lparr>action = ''FREEZE & REPORT'',
        steps =
          [''Immediately freeze the transaction'',
           ''File STR with Egyptian Financial Intelligence Unit (EIFIU) within 24 hours'',
           ''Escalate to MLRO and senior management'',
           ''Apply Enhanced Due Diligence (EDD) on customer'',
           ''Document all findings with audit trail'',
           ''Do NOT tip off the customer (tipping-off offence under FRA 161/2024)''],
        str_required = True, edd_required = True\<rparr>),
      (''HIGH'',
       \<lparr>action = ''REVIEW & ESCALATE'',
        steps =
          [''Place transaction on hold pending review'',
           ''Escalate to compliance supervisor'',
           ''Apply Enhanced Due Diligence (EDD)'',
           ''Consider filing STR if suspicion confirmed'',
           ''Request additional documentation from customer''],
        str_required = False, edd_required = True\<rparr>),
      (''MEDIUM'',
       \<lparr>action = ''ENHANCED MONITORING'',
        steps =
          [''Allow transaction but flag for monitoring'',
           ''Apply Standard Customer Due Diligence (CDD)'',
           ''Request source of funds documentation'',
           ''Increase monitoring frequency for this customer''],
        str_required = False, edd_required = False\<rparr>),
      (''LOW'', low_action)]"

text \<open>\<^verbatim>\<open>actions.get(risk_level, actions["LOW"])\<close>; the flags are not read.\<close>

definition get_recommendation :: "string \<Rightarrow> flag list \<Rightarrow> recommendation" where
  "get_recommendation level flags =
     (case map_of actions level of None \<Rightarrow> low_action | Some r \<Rightarrow> r)"

section \<open>Transaction analysis\<close>

record analysis =
  res_transaction_id :: pyval
  res_timestamp :: string
  res_score :: int
  res_risk_level :: string
  res_tree_scores :: "(string \<times> int) list"
  res_flags :: "flag list"
  res_flag_count :: int
  res_recommendation :: recommendation
  res_model_version :: string
  res_compliance_ref :: string

text \<open>
  The two reads of the environment are arguments: \<open>rnd\<close> is the value of
  \<^verbatim>\<open>random.randint(10000, 99999)\<close> and \<open>now\<close> the text of
  \<^verbatim>\<open>datetime.utcnow().isoformat()\<close>.
\<close>

definition analyze_transaction ::
  "builtins \<Rightarrow> (string \<rightharpoonup> pyval) \<Rightarrow> int \<Rightarrow> string \<Rightarrow> py_error + analysis" where
  "analyze_transaction B data rnd now =
     bind_result (extract_features B data) (\<lambda>features.
       let prediction = random_forest_predict features;
           flags = detect_flags features;
           recommendation = get_recommendation (risk_level prediction) flags
       in Inr
         \<lparr>res_transaction_id =
            dict_get data ''transaction_id'' (PyStr (''TXN-'' @ str_int rnd)),
          res_timestamp = now,
          res_score = score prediction,
          res_risk_level = risk_level prediction,
          res_tree_scores = trees prediction,
          res_flags = flags,
          res_flag_count = int (length (filter (\<lambda>x. code x \<noteq> ''clean'') flags)),
          res_recommendation = recommendation,
          res_model_version = ''ShieldAML-RF-v1.0'',
          res_compliance_ref =
            ''FATF 2023 '' @ [CHR 0xC2, CHR 0xB7] @ '' FRA Law 161/2024 ''
              @ [CHR 0xC2, CHR 0xB7] @ '' UN Sanctions''\<rparr>)"

section \<open>KYC analysis\<close>

definition SANCTIONS_LIST :: "string list" where
  "SANCTIONS_LIST =
     [''kim jong'', ''putin vladimir'', ''khamenei'', ''al-bashir'', ''lukashenko'',
      ''maduro nicolas'', ''al-assad'', ''gaddafi'']"

definition pep_keywords :: "string list" where
  "pep_keywords =
     [''minister'', ''president'', ''senator'', ''official'', ''politician'',
      ''ambassador'', ''governor'', ''parliament'', ''general'', ''director general'']"

record kyc_result =
  kyc_customer_name :: pyval
  kyc_risk_score :: int
  kyc_risk_level :: string
  kyc_sanctions_match :: bool
  kyc_is_pep :: bool
  kyc_high_risk_nationality :: bool
  kyc_cdd_level :: string
  kyc_str_required :: bool
  kyc_timestamp :: string

text \<open>
  The four conversions \<^verbatim>\<open>str(data.get(...))\<close> in the order of the source (name,
  nationality, occupation, country), the first one that raises ends the call; the
  country is not read again. \<^verbatim>\<open>kw in occupation\<close> on strings is the contiguous
  \<open>sublist\<close>. \<^verbatim>\<open>data.get("name")\<close> is \<^verbatim>\<open>None\<close> for a missing key.
\<close>

definition analyze_kyc ::
  "builtins \<Rightarrow> (string \<rightharpoonup> pyval) \<Rightarrow> string \<Rightarrow> py_error + kyc_result" where
  "analyze_kyc B data now =
     bind_result (py_str B (dict_get data ''name'' (PyStr ''''))) (\<lambda>name_str.
     bind_result (py_str B (dict_get data ''nationality'' (PyStr ''''))) (\<lambda>nationality_str.
     bind_result (py_str B (dict_get data ''occupation'' (PyStr ''''))) (\<lambda>occupation_str.
     bind_result (py_str B (dict_get data ''country'' (PyStr ''''))) (\<lambda>country_str.
       let name = lower B name_str;
           nationality = lower B nationality_str;
           occupation = lower B occupation_str;
           country = lower B country_str;
           pep = list_ex (\<lambda>kw. sublist kw occupation) pep_keywords;
           sanctions_hit = list_ex (\<lambda>name_part. sublist name_part name) SANCTIONS_LIST;
           high_risk_nat = (nationality \<in> lower B ` HIGH_RISK_COUNTRIES);
           risk_score =
             (if sanctions_hit then 90 else 0) + (if pep then 40 else 0)
             + (if high_risk_nat then 25 else 0);
           level =
             (if 80 \<le> risk_score then ''CRITICAL''
              else if 40 \<le> risk_score then ''HIGH''
              else if 20 \<le> risk_score then ''MEDIUM''
              else ''LOW'');
           cdd_level = (if level \<in> {''CRITICAL'', ''HIGH''} then ''EDD'' else ''Standard CDD'')
       in Inr
         \<lparr>kyc_customer_name = dict_get data ''name'' PyNone,
          kyc_risk_score = min risk_score 100,
          kyc_risk_level = level,
          kyc_sanctions_match = sanctions_hit,
          kyc_is_pep = pep,
          kyc_high_risk_nationality = high_risk_nat,
          kyc_cdd_level = cdd_level,
          kyc_str_required = sanctions_hit,
          kyc_timestamp = now\<rparr>))))"

section \<open>Concrete inputs\<close>

text \<open>
  The dictionary that the route \<^verbatim>\<open>/api/transactions/analyze\<close> builds from the fields of
  a \<^verbatim>\<open>TransactionInput\<close>, in the order amount, type, country, hour, tx_count_30d,
  account_age_months, kyc_status, previously_flagged, is_pep.
\<close>

definition tx_input ::
  "int \<Rightarrow> string \<Rightarrow> string \<Rightarrow> int \<Rightarrow> int \<Rightarrow> int \<Rightarrow> int \<Rightarrow> bool \<Rightarrow> bool \<Rightarrow> (string \<rightharpoonup> pyval)" where
  "tx_input am ty co ho tc ag ks pf pep =
     map_of
       [(''amount'', PyInt am), (''type'', PyStr ty), (''country'', PyStr co),
        (''hour'', PyInt ho), (''tx_count_30d'', PyInt tc),
        (''account_age_months'', PyInt ag), (''kyc_status'', PyInt ks),
        (''previously_flagged'', PyBool pf), (''is_pep'', PyBool pep)]"

definition scenario_A :: "string \<rightharpoonup> pyval" where
  "scenario_A = tx_input 125000 ''wire'' ''ir'' 3 8 2 0 False False"

definition scenario_B :: "string \<rightharpoonup> pyval" where
  "scenario_B = tx_input 9800 ''cash'' ''eg'' 16 7 12 1 False False"

definition features_A :: feature_set where
  "features_A = make_features (Fin 125000) ''ir'' ''wire'' 3 8 2 0 False False"

definition features_B :: feature_set where
  "features_B = make_features (Fin 9800) ''eg'' ''cash'' 16 7 12 1 False False"

text \<open>Feature sets whose final scores are the two sides of each tier cutoff.\<close>

definition features_80 :: feature_set where
  "features_80 = make_features (Fin 12500) ''ir'' ''crypto'' 3 20 12 1 True True"

definition features_79 :: feature_set where
  "features_79 = make_features (Fin 12000) ''ir'' ''wire'' 3 2 2 0 True False"

definition features_60 :: feature_set where
  "features_60 = make_features (Fin 890) ''ir'' ''wire'' 12 20 2 0 False True"

definition features_59 :: feature_set where
  "features_59 = make_features (Fin 12000) ''pk'' ''wire'' 3 20 2 0 False False"

definition features_35 :: feature_set where
  "features_35 = make_features (Fin 890) ''uk'' ''wire'' 3 2 2 0 True True"

definition features_34 :: feature_set where
  "features_34 = make_features (Fin 890) ''uk'' ''wire'' 3 20 12 0 True True"

text \<open>A crypto transfer to a sanctioned country at noon, and a sanctioned name.\<close>

definition features_crypto_kp :: feature_set where
  "features_crypto_kp = make_features (Fin 500) ''kp'' ''crypto'' 12 1 24 1 False False"

definition features_default :: feature_set where
  "features_default = make_features (Fin 0) [] [] 12 0 12 1 False False"

definition kyc_input_putin :: "string \<rightharpoonup> pyval" where
  "kyc_input_putin =
     map_of
       [(''name'', PyStr ''Mr. PUTIN Vladimir V.''), (''nationality'', PyStr ''EG''),
        (''occupation'', PyStr ''Teacher''), (''country'', PyStr ''eg'')]"


section \<open>Properties of the rounding\<close>

text \<open>
  \<open>ilog2 x\<close> is the binary exponent of \<open>x\<close>; \<open>fl\<close> moves a number in the normal
  range by at most half a unit in the last place, keeps every integer below \<open>2 ^ 53\<close>
  in magnitude, and takes no integer below \<open>2 ^ 1023\<close> in magnitude out of the range
  of a float.
\<close>

lemma pow2_powi: "pow2 k = 2 powi k"
  by (simp add: pow2_def power_int_def power_one_over)

lemma pow2_pos: "0 < pow2 k"
  by (simp add: pow2_powi)

lemma pow2_add: "pow2 (a + b) = pow2 a * pow2 b"
  by (simp add: pow2_powi power_int_add)

lemma pow2_mono: "a \<le> b \<Longrightarrow> pow2 a \<le> pow2 b"
  by (simp add: pow2_powi power_int_increasing)

lemma pow2_less_cancel: "pow2 a < pow2 b \<Longrightarrow> a < b"
  using pow2_mono [of b a] by (cases "a < b") auto

lemma pow2_nat: "pow2 (int n) = 2 ^ n"
  by (simp add: pow2_def)

lemma of_int_pow2_bounds:
  assumes "0 < p"
  shows "pow2 (bitlen p - 1) \<le> of_int p \<and> of_int p < pow2 (bitlen p)"
proof -
  have b: "2 ^ nat (bitlen p - 1) \<le> p" "p < 2 ^ nat (bitlen p)"
    using bitlen_bounds [OF assms] by simp_all
  have ge: "1 \<le> bitlen p"
    using assms by (simp add: bitlen_alt_def)
  have "(of_int (2 ^ nat (bitlen p - 1)) :: rat) \<le> of_int p"
    using b(1) by (simp only: of_int_le_iff)
  moreover have "(of_int p :: rat) < of_int (2 ^ nat (bitlen p))"
    using b(2) by (simp only: of_int_less_iff)
  ultimately show ?thesis
    using ge by (simp add: pow2_def)
qed

lemma ilog2_bounds:
  assumes "x \<noteq> 0"
  shows "pow2 (ilog2 x) \<le> \<bar>x\<bar> \<and> \<bar>x\<bar> < pow2 (ilog2 x + 1)"
proof -
  obtain p q where pq: "quotient_of \<bar>x\<bar> = (p, q)"
    by (cases "quotient_of \<bar>x\<bar>")
  have q: "0 < q"
    using quotient_of_denom_pos [OF pq] .
  have x: "\<bar>x\<bar> = of_int p / of_int q"
    using quotient_of_div [OF pq] .
  have "0 < \<bar>x\<bar>"
    using assms by simp
  then have p: "0 < p"
    using q unfolding x by (simp add: zero_less_divide_iff)
  define bp where "bp = bitlen p"
  define bq where "bq = bitlen q"
  have P: "pow2 (bp - 1) \<le> of_int p" "of_int p < pow2 bp"
    and Q: "pow2 (bq - 1) \<le> of_int q" "of_int q < pow2 bq"
    using of_int_pow2_bounds [OF p] of_int_pow2_bounds [OF q] by (simp_all add: bp_def bq_def)
  have qpos: "(0 :: rat) < of_int q" and ppos: "(0 :: rat) < of_int p"
    using p q by simp_all
  have "\<bar>x\<bar> * pow2 (bq - 1) \<le> \<bar>x\<bar> * of_int q"
    using Q(1) \<open>0 < \<bar>x\<bar>\<close> by simp
  also have "\<dots> = of_int p"
    using qpos unfolding x by simp
  also have "\<dots> < pow2 bp"
    by (rule P(2))
  finally have "\<bar>x\<bar> * pow2 (bq - 1) < pow2 (bp - bq + 1) * pow2 (bq - 1)"
    by (simp add: pow2_add [symmetric])
  then have up: "\<bar>x\<bar> < pow2 (bp - bq + 1)"
    using pow2_pos [of "bq - 1"] by simp
  have "pow2 (bp - bq - 1) * pow2 bq = pow2 (bp - 1)"
    by (simp add: pow2_add [symmetric])
  also have "\<dots> \<le> of_int p"
    by (rule P(1))
  also have "\<dots> = \<bar>x\<bar> * of_int q"
    using qpos unfolding x by simp
  also have "\<dots> < \<bar>x\<bar> * pow2 bq"
    using Q(2) \<open>0 < \<bar>x\<bar>\<close> by simp
  finally have lo: "pow2 (bp - bq - 1) < \<bar>x\<bar>"
    using pow2_pos [of bq] by simp
  show ?thesis
  proof (cases "pow2 (bp - bq) \<le> \<bar>x\<bar>")
    case True
    then have "ilog2 x = bp - bq"
      by (simp add: ilog2_def pq bp_def bq_def)
    then show ?thesis
      using True up by simp
  next
    case False
    then have "ilog2 x = bp - bq - 1"
      by (simp add: ilog2_def pq bp_def bq_def)
    then show ?thesis
      using False lo by simp
  qed
qed

lemma round_half_even_near: "\<bar>of_int (round_half_even y) - y\<bar> \<le> 1 / 2"
proof -
  have "of_int \<lfloor>y\<rfloor> \<le> y" "y < of_int \<lfloor>y\<rfloor> + 1"
    by linarith+
  then show ?thesis
    by (auto simp: round_half_even_def Let_def abs_le_iff)
qed

lemma round_half_even_of_int: "round_half_even (of_int n) = n"
  by (simp add: round_half_even_def)

lemma fl_error:
  assumes "x \<noteq> 0" and "- 1022 \<le> ilog2 x"
  shows "\<bar>fl x - x\<bar> \<le> pow2 (ilog2 x - 53)"
proof -
  define u where "u = pow2 (ilog2 x - 52)"
  have u: "0 < u"
    by (simp add: u_def pow2_pos)
  have fl: "fl x = of_int (round_half_even (x / u)) * u"
    using assms by (simp add: fl_def u_def max_def Let_def)
  have "(of_int (round_half_even (x / u)) - x / u) * u = fl x - x"
    using u by (simp add: fl field_simps)
  then have "\<bar>fl x - x\<bar> = \<bar>(of_int (round_half_even (x / u)) - x / u) * u\<bar>"
    by simp
  also have "\<dots> = \<bar>of_int (round_half_even (x / u)) - x / u\<bar> * u"
    using u by (simp add: abs_mult)
  also have "\<dots> \<le> 1 / 2 * u"
    using round_half_even_near [of "x / u"] u by (simp only: mult_right_mono less_imp_le)
  also have "\<dots> = pow2 (ilog2 x - 53)"
  proof -
    have "pow2 (ilog2 x - 52) = pow2 (ilog2 x - 53) * pow2 1"
      by (simp add: pow2_add [symmetric])
    then show ?thesis
      by (simp add: u_def pow2_def)
  qed
  finally show ?thesis .
qed

lemma ilog2_of_int:
  assumes "i \<noteq> 0"
  shows "0 \<le> ilog2 (of_int i)"
proof -
  have "1 \<le> \<bar>i\<bar>"
    using assms by linarith
  then have "(of_int 1 :: rat) \<le> of_int \<bar>i\<bar>"
    by (simp only: of_int_le_iff)
  then have "(1 :: rat) \<le> \<bar>of_int i\<bar>"
    by simp
  also have "\<dots> < pow2 (ilog2 (of_int i) + 1)"
    using ilog2_bounds [of "of_int i"] assms by simp
  finally have "pow2 0 < pow2 (ilog2 (of_int i) + 1)"
    by (simp add: pow2_def)
  then show ?thesis
    using pow2_less_cancel by fastforce
qed

lemma fl_of_int_bound:
  assumes "\<bar>i\<bar> < 2 ^ 1023"
  shows "\<bar>fl (of_int i)\<bar> < pow2 1024"
proof (cases "i = 0")
  case True
  then show ?thesis
    by (simp add: fl_def pow2_pos)
next
  case False
  define x :: rat where "x = of_int i"
  have x0: "x \<noteq> 0"
    using False by (simp add: x_def)
  have e: "0 \<le> ilog2 x"
    using ilog2_of_int [OF False] by (simp add: x_def)
  have "\<bar>fl x - x\<bar> \<le> pow2 (ilog2 x - 53)"
    using fl_error [OF x0] e by simp
  also have "\<dots> \<le> pow2 (ilog2 x)"
    by (simp add: pow2_mono)
  also have "\<dots> \<le> \<bar>x\<bar>"
    using ilog2_bounds [OF x0] by simp
  finally have "\<bar>fl x\<bar> \<le> 2 * \<bar>x\<bar>"
    by linarith
  moreover have "\<bar>x\<bar> < 2 ^ 1023"
  proof -
    have "(of_int \<bar>i\<bar> :: rat) < of_int (2 ^ 1023)"
      using assms by (simp only: of_int_less_iff)
    then show ?thesis
      by (simp add: x_def)
  qed
  moreover have "pow2 1024 = 2 * 2 ^ 1023"
    by (simp add: pow2_def)
  ultimately show ?thesis
    unfolding x_def by linarith
qed

lemma fl_of_int_exact:
  assumes "\<bar>i\<bar> < 2 ^ 53"
  shows "fl (of_int i) = of_int i"
proof (cases "i = 0")
  case True
  then show ?thesis
    by (simp add: fl_def)
next
  case False
  define x :: rat where "x = of_int i"
  define e where "e = ilog2 x"
  have x0: "x \<noteq> 0"
    using False by (simp add: x_def)
  have e0: "0 \<le> e"
    using ilog2_of_int [OF False] by (simp add: x_def e_def)
  have "(of_int \<bar>i\<bar> :: rat) < of_int (2 ^ 53)"
    using assms by (simp only: of_int_less_iff)
  then have "\<bar>x\<bar> < pow2 53"
    by (simp add: x_def pow2_def)
  then have "pow2 e < pow2 53"
    using ilog2_bounds [OF x0] by (simp add: e_def)
  then have e53: "e < 53"
    by (rule pow2_less_cancel)
  define k where "k = nat (52 - e)"
  have u: "pow2 (e - 52) = 1 / 2 ^ k"
    using e53 by (simp add: pow2_def k_def)
  have "x / pow2 (e - 52) = of_int (i * 2 ^ k)"
    by (simp add: u x_def)
  then have "round_half_even (x / pow2 (e - 52)) = i * 2 ^ k"
    by (simp only: round_half_even_of_int)
  then have "fl x = of_int (i * 2 ^ k) * pow2 (e - 52)"
    using x0 e0 by (simp add: fl_def e_def max_def Let_def)
  then show ?thesis
    by (simp add: u x_def)
qed

section \<open>Evaluation lemmas\<close>

lemmas feature_defs =
  make_features_def fgt_def fge_def flt_def fmod_is_zero_def SANCTIONED_COUNTRIES_def
  HIGH_RISK_COUNTRIES_def REPORTING_THRESHOLD_def STRUCTURING_LIMIT_def

lemmas tree_defs =
  tree_sanctions_amount_def tree_sanctions_amount_score_def
  tree_account_behavior_def tree_account_behavior_score_def
  tree_type_country_combo_def tree_type_country_combo_score_def
  tree_kyc_velocity_def tree_kyc_velocity_score_def
  tree_anomaly_isolation_def tree_anomaly_isolation_score_def
  risk_signals_def sum_signals_def bonus_def

lemma floor_rat_numeral [simp]: "\<lfloor>numeral a / numeral b :: rat\<rfloor> = numeral a div numeral b"
  by (metis floor_divide_of_int_eq of_int_numeral)

lemma weight_025: "fl (1 / 4) = 1 / 4"
  by code_simp

lemma weight_020: "fl (1 / 5) = 3602879701896397 / 18014398509481984"
  by code_simp

lemma weight_015: "fl (3 / 20) = 5404319552844595 / 36028797018963968"
  by code_simp

lemma weighted_score_unfold:
  "weighted_score f =
     fadd (fadd (fadd (fadd (fadd 0
       (fmul (tree_sanctions_amount f) (1 / 4)))
       (fmul (tree_account_behavior f) (3602879701896397 / 18014398509481984)))
       (fmul (tree_type_country_combo f) (1 / 4)))
       (fmul (tree_kyc_velocity f) (5404319552844595 / 36028797018963968)))
       (fmul (tree_anomaly_isolation f) (5404319552844595 / 36028797018963968))"
  by (simp add: weighted_score_def forest_def weight_025 weight_020 weight_015)

lemma score_predict: "score (random_forest_predict f) = py_round (min (weighted_score f) 100)"
  by (simp add: random_forest_predict_def Let_def)

lemma risk_level_predict:
  "risk_level (random_forest_predict f) =
     (if 80 \<le> score (random_forest_predict f) then ''CRITICAL''
      else if 60 \<le> score (random_forest_predict f) then ''HIGH''
      else if 35 \<le> score (random_forest_predict f) then ''MEDIUM''
      else ''LOW'')"
  by (simp add: random_forest_predict_def Let_def)

lemma extract_tx_input:
  assumes "\<bar>am\<bar> < 2 ^ 53" and "lower B ty = ty" and "lower B co = co"
  shows "extract_features B (tx_input am ty co ho tc ag ks pf pep) =
     Inr (make_features (Fin (of_int am)) co ty ho tc ag ks pf pep)"
proof -
  have "\<bar>am\<bar> < 2 ^ 1023"
    using assms(1) by simp
  then have "\<not> pow2 1024 \<le> \<bar>fl (of_int am)\<bar>"
    using fl_of_int_bound [of am] by simp
  then show ?thesis
    using assms fl_of_int_exact [of am]
    by (simp add: extract_features_def tx_input_def bind_result_def dict_get_def
        py_float_def py_int_def py_str_def py_bool_def Let_def)
qed

lemma extract_A: "extract_features B scenario_A = Inr features_A"
proof -
  have "lower B ''wire'' = ''wire''" "lower B ''ir'' = ''ir''"
    by (simp_all add: lower_def lower_char_def is_ascii_def)
  then show ?thesis
    unfolding scenario_A_def features_A_def
    using extract_tx_input [where am = 125000 and ty = "''wire''" and co = "''ir''"]
    by simp
qed

lemma extract_B: "extract_features B scenario_B = Inr features_B"
proof -
  have "lower B ''cash'' = ''cash''" "lower B ''eg'' = ''eg''"
    by (simp_all add: lower_def lower_char_def is_ascii_def)
  then show ?thesis
    unfolding scenario_B_def features_B_def
    using extract_tx_input [where am = 9800 and ty = "''cash''" and co = "''eg''"]
    by simp
qed

lemma trees_A:
  "tree_sanctions_amount features_A = 95"
  "tree_account_behavior features_A = 65"
  "tree_type_country_combo features_A = 70"
  "tree_kyc_velocity features_A = 40"
  "tree_anomaly_isolation features_A = 75"
  by (simp_all add: features_A_def feature_defs tree_defs)

lemma products_A:
  "fmul 95 (1 / 4) = 95 / 4"
  "fmul 65 (3602879701896397 / 18014398509481984) = 13"
  "fmul 70 (1 / 4) = 35 / 2"
  "fmul 40 (5404319552844595 / 36028797018963968) = 6"
  "fmul 75 (5404319552844595 / 36028797018963968) = 45 / 4"
  by code_simp+

lemma products_B:
  "fmul 0 (1 / 4) = 0"
  "fmul 0 (3602879701896397 / 18014398509481984) = 0"
  "fmul 40 (1 / 4) = 10"
  "fmul 15 (5404319552844595 / 36028797018963968) = 9 / 4"
  by code_simp+

lemma weighted_A: "weighted_score features_A = 143 / 2"
  unfolding weighted_score_unfold trees_A by code_simp

lemma trees_B:
  "tree_sanctions_amount features_B = 0"
  "tree_account_behavior features_B = 0"
  "tree_type_country_combo features_B = 40"
  "tree_kyc_velocity features_B = 15"
  "tree_anomaly_isolation features_B = 0"
  by (simp_all add: features_B_def feature_defs tree_defs)

lemma weighted_B: "weighted_score features_B = 49 / 4"
  unfolding weighted_score_unfold trees_B by code_simp

lemma score_A: "score (random_forest_predict features_A) = 72"
  by (simp add: score_predict weighted_A py_round_def round_half_even_def)

lemma score_B: "score (random_forest_predict features_B) = 12"
  by (simp add: score_predict weighted_B py_round_def round_half_even_def)

section \<open>The flag list\<close>

lemma flag_if_Nil [simp]: "flag_if c x = [] \<longleftrightarrow> \<not> c"
  by (simp add: flag_if_def)

lemma set_flag_if [simp]: "y \<in> set (flag_if c x) \<longleftrightarrow> c \<and> y = x"
  by (cases c) (simp_all add: flag_if_def)

lemma code_mk_flag [simp]: "code (mk_flag c sev ref) = c"
  by (simp add: mk_flag_def)

lemma map_code_flag_if [simp]: "map code (flag_if c x) = (if c then [code x] else [])"
  by (simp add: flag_if_def)

lemma red_flags_Nil:
  "red_flags f = [] \<longleftrightarrow>
     \<not> (is_sanctioned f \<or> (is_high_risk f \<and> \<not> is_sanctioned f) \<or> is_night f
        \<or> above_threshold f \<or> near_threshold f
        \<or> (is_new_account f \<and> fgt (amount f) 5000) \<or> is_high_velocity f
        \<or> kyc_incomplete f \<or> prev_flagged f
        \<or> (tx_type f = ''crypto'' \<and> is_high_risk f) \<or> is_pep f
        \<or> (is_round_amount f \<and> fgt (amount f) 5000))"
  by (simp add: red_flags_def)

lemma red_flags_codes:
  "x \<in> set (red_flags f) \<Longrightarrow>
     code x \<in> {''sanctioned_country'', ''high_risk_country'', ''night_transaction'',
       ''threshold_breach'', ''structuring_suspected'', ''new_account_large'',
       ''high_velocity'', ''incomplete_kyc'', ''repeat_offender'', ''crypto_highrisk'',
       ''pep_linked'', ''round_amount''}"
  unfolding red_flags_def set_append Un_iff set_flag_if by (elim disjE conjE) simp_all

lemma red_flags_not_clean: "x \<in> set (red_flags f) \<Longrightarrow> code x \<noteq> ''clean''"
  using red_flags_codes [of x f] by auto

lemma filter_red_flags: "filter (\<lambda>x. code x \<noteq> ''clean'') (red_flags f) = red_flags f"
  by (simp add: red_flags_not_clean)

lemma code_clean_flag [simp]: "code clean_flag = ''clean''"
  by (simp add: clean_flag_def)

lemma detect_flags_cases:
  "detect_flags f = (if red_flags f = [] then [clean_flag] else red_flags f)"
  by (simp add: detect_flags_def Let_def)

lemma codes_detect_flags:
  "map code (detect_flags f) =
     (if red_flags f = [] then [''clean''] else map code (red_flags f))"
  by (simp add: detect_flags_cases)

lemma codes_red_flags:
  "map code (red_flags f) =
     (if is_sanctioned f then [''sanctioned_country''] else [])
     @ (if is_high_risk f \<and> \<not> is_sanctioned f then [''high_risk_country''] else [])
     @ (if is_night f then [''night_transaction''] else [])
     @ (if above_threshold f then [''threshold_breach''] else [])
     @ (if near_threshold f then [''structuring_suspected''] else [])
     @ (if is_new_account f \<and> fgt (amount f) 5000 then [''new_account_large''] else [])
     @ (if is_high_velocity f then [''high_velocity''] else [])
     @ (if kyc_incomplete f then [''incomplete_kyc''] else [])
     @ (if prev_flagged f then [''repeat_offender''] else [])
     @ (if tx_type f = ''crypto'' \<and> is_high_risk f then [''crypto_highrisk''] else [])
     @ (if is_pep f then [''pep_linked''] else [])
     @ (if is_round_amount f \<and> fgt (amount f) 5000 then [''round_amount''] else [])"
  unfolding red_flags_def map_append map_code_flag_if code_mk_flag by (rule refl)

lemma codes_A:
  "map code (detect_flags features_A) =
     [''sanctioned_country'', ''night_transaction'', ''threshold_breach'',
      ''new_account_large'', ''incomplete_kyc'', ''round_amount'']"
  unfolding codes_detect_flags red_flags_Nil codes_red_flags
  by (simp add: features_A_def feature_defs)

lemma codes_B: "map code (detect_flags features_B) = [''structuring_suspected'']"
  unfolding codes_detect_flags red_flags_Nil codes_red_flags
  by (simp add: features_B_def feature_defs)

lemma thresholds_B: "near_threshold features_B" "\<not> above_threshold features_B"
  by (simp_all add: features_B_def feature_defs)

lemma analyze_transaction_Inr:
  "extract_features B data = Inr f \<Longrightarrow>
     \<exists>r. analyze_transaction B data rnd now = Inr r
       \<and> res_score r = score (random_forest_predict f)
       \<and> res_risk_level r = risk_level (random_forest_predict f)
       \<and> res_tree_scores r = trees (random_forest_predict f)
       \<and> res_flags r = detect_flags f
       \<and> res_flag_count r = int (length (filter (\<lambda>x. code x \<noteq> ''clean'') (detect_flags f)))
       \<and> res_recommendation r =
           get_recommendation (risk_level (random_forest_predict f)) (detect_flags f)"
  by (simp add: analyze_transaction_def bind_result_def Let_def)

lemma analyze_transaction_score:
  "extract_features B data = Inr f \<Longrightarrow>
     map_sum id res_score (analyze_transaction B data rnd now)
       = Inr (score (random_forest_predict f))"
  by (simp add: analyze_transaction_def bind_result_def Let_def)

lemma analyze_transaction_risk_level:
  "extract_features B data = Inr f \<Longrightarrow>
     map_sum id res_risk_level (analyze_transaction B data rnd now)
       = Inr (risk_level (random_forest_predict f))"
  by (simp add: analyze_transaction_def bind_result_def Let_def)

section \<open>Scenario A\<close>

text \<open>
  Claim C1 (as stated): on amount 125000, type wire, country ir, hour 3, eight
  transactions in 30 days, account age 2, KYC incomplete, not previously flagged, no PEP,
  \<open>analyze_transaction\<close> returns tier CRITICAL with a score of at least 80. The code
  returns score 72 and tier HIGH: the trees score 95, 65, 70, 40 and 75, the weighted
  sum is 71.5, and it rounds to 72.
\<close>

theorem scenario_A_not_critical:
  "map_sum id res_score (analyze_transaction plain_builtins scenario_A 10000 []) = Inr 72
   \<and> map_sum id res_risk_level (analyze_transaction plain_builtins scenario_A 10000 [])
       = Inr ''HIGH''
   \<and> map_sum id res_risk_level (analyze_transaction plain_builtins scenario_A 10000 [])
       \<noteq> Inr ''CRITICAL''"
  by (simp add: analyze_transaction_score [OF extract_A]
      analyze_transaction_risk_level [OF extract_A] risk_level_predict score_A)

text \<open>
  Claim C1 (amended): on the input of scenario A, whatever the builtins, the random
  number and the clock, \<open>analyze_transaction\<close> returns a result with final score 72 and
  tier HIGH, and its flag list contains flags with the codes sanctioned_country and
  threshold_breach.
\<close>

theorem scenario_A_high:
  "\<exists>r. analyze_transaction B scenario_A rnd now = Inr r
     \<and> res_score r = 72 \<and> res_risk_level r = ''HIGH''
     \<and> ''sanctioned_country'' \<in> set (map code (res_flags r))
     \<and> ''threshold_breach'' \<in> set (map code (res_flags r))"
proof -
  obtain r where r: "analyze_transaction B scenario_A rnd now = Inr r"
    "res_score r = score (random_forest_predict features_A)"
    "res_risk_level r = risk_level (random_forest_predict features_A)"
    "res_flags r = detect_flags features_A"
    using analyze_transaction_Inr [OF extract_A] by blast
  have "res_score r = 72"
    by (simp add: r score_A)
  moreover have "res_risk_level r = ''HIGH''"
    by (simp add: r risk_level_predict score_A)
  moreover have "''sanctioned_country'' \<in> set (map code (res_flags r))"
    "''threshold_breach'' \<in> set (map code (res_flags r))"
    unfolding r codes_A by simp_all
  ultimately show ?thesis
    using r(1) by blast
qed

section \<open>Scenario B\<close>

text \<open>
  Claim C2 (as stated): on amount 9800, type cash, country eg, hour 16, seven
  transactions in 30 days, account age 12, KYC verified, not previously flagged, no PEP,
  \<open>analyze_transaction\<close> returns tier HIGH. The code returns score 12 and tier LOW:
  only the trees Type and Country Combo (40) and KYC and Velocity (15) score, and the
  weighted sum is 12.25.
\<close>

theorem scenario_B_not_high:
  "map_sum id res_score (analyze_transaction plain_builtins scenario_B 10000 []) = Inr 12
   \<and> map_sum id res_risk_level (analyze_transaction plain_builtins scenario_B 10000 [])
       = Inr ''LOW''
   \<and> map_sum id res_risk_level (analyze_transaction plain_builtins scenario_B 10000 [])
       \<noteq> Inr ''HIGH''"
  by (simp add: analyze_transaction_score [OF extract_B]
      analyze_transaction_risk_level [OF extract_B] risk_level_predict score_B)

text \<open>
  Claim C2 (amended): on the input of scenario B the extracted features have
  near_threshold true and above_threshold false, the flag list contains a flag with code
  structuring_suspected, and \<open>analyze_transaction\<close> returns final score 12 and tier
  LOW.
\<close>

theorem scenario_B_low:
  "\<exists>f r. extract_features B scenario_B = Inr f
     \<and> near_threshold f \<and> \<not> above_threshold f
     \<and> analyze_transaction B scenario_B rnd now = Inr r
     \<and> ''structuring_suspected'' \<in> set (map code (res_flags r))
     \<and> res_score r = 12 \<and> res_risk_level r = ''LOW''"
proof -
  obtain r where r: "analyze_transaction B scenario_B rnd now = Inr r"
    "res_score r = score (random_forest_predict features_B)"
    "res_risk_level r = risk_level (random_forest_predict features_B)"
    "res_flags r = detect_flags features_B"
    using analyze_transaction_Inr [OF extract_B] by blast
  have "res_score r = 12"
    by (simp add: r score_B)
  moreover have "res_risk_level r = ''LOW''"
    by (simp add: r risk_level_predict score_B)
  moreover have "''structuring_suspected'' \<in> set (map code (res_flags r))"
    unfolding r codes_B by simp
  ultimately show ?thesis
    using r(1) extract_B thresholds_B by blast
qed

section \<open>Tier cutoffs\<close>

lemma trees_80:
  "tree_sanctions_amount features_80 = 80"
  "tree_account_behavior features_80 = 70"
  "tree_type_country_combo features_80 = 100"
  "tree_kyc_velocity features_80 = 65"
  "tree_anomaly_isolation features_80 = 75"
  by (simp_all add: features_80_def feature_defs tree_defs)

lemma weighted_80: "weighted_score features_80 = 80"
  unfolding weighted_score_unfold trees_80 by code_simp

lemma trees_79:
  "tree_sanctions_amount features_79 = 80"
  "tree_account_behavior features_79 = 95"
  "tree_type_country_combo features_79 = 70"
  "tree_kyc_velocity features_79 = 75"
  "tree_anomaly_isolation features_79 = 75"
  by (simp_all add: features_79_def feature_defs tree_defs)

lemma weighted_79: "weighted_score features_79 = 79"
  unfolding weighted_score_unfold trees_79 by code_simp

lemma trees_60:
  "tree_sanctions_amount features_60 = 45"
  "tree_account_behavior features_60 = 95"
  "tree_type_country_combo features_60 = 50"
  "tree_kyc_velocity features_60 = 40"
  "tree_anomaly_isolation features_60 = 75"
  by (simp_all add: features_60_def feature_defs tree_defs)

lemma weighted_60: "weighted_score features_60 = 60"
  unfolding weighted_score_unfold trees_60 by code_simp

lemma trees_59:
  "tree_sanctions_amount features_59 = 55"
  "tree_account_behavior features_59 = 85"
  "tree_type_country_combo features_59 = 20"
  "tree_kyc_velocity features_59 = 80"
  "tree_anomaly_isolation features_59 = 75"
  by (simp_all add: features_59_def feature_defs tree_defs)

lemma weighted_59: "weighted_score features_59 = 59"
  unfolding weighted_score_unfold trees_59 by code_simp

lemma trees_35:
  "tree_sanctions_amount features_35 = 15"
  "tree_account_behavior features_35 = 100"
  "tree_type_country_combo features_35 = 0"
  "tree_kyc_velocity features_35 = 0"
  "tree_anomaly_isolation features_35 = 75"
  by (simp_all add: features_35_def feature_defs tree_defs)

lemma weighted_35: "weighted_score features_35 = 35"
  unfolding weighted_score_unfold trees_35 by code_simp

lemma trees_34:
  "tree_sanctions_amount features_34 = 15"
  "tree_account_behavior features_34 = 95"
  "tree_type_country_combo features_34 = 0"
  "tree_kyc_velocity features_34 = 0"
  "tree_anomaly_isolation features_34 = 75"
  by (simp_all add: features_34_def feature_defs tree_defs)

lemma weighted_34: "weighted_score features_34 = 34"
  unfolding weighted_score_unfold trees_34 by code_simp

lemma boundary_scores:
  "score (random_forest_predict features_80) = 80"
  "score (random_forest_predict features_79) = 79"
  "score (random_forest_predict features_60) = 60"
  "score (random_forest_predict features_59) = 59"
  "score (random_forest_predict features_35) = 35"
  "score (random_forest_predict features_34) = 34"
  by (simp_all add: score_predict weighted_80 weighted_79 weighted_60 weighted_59
      weighted_35 weighted_34 py_round_def round_half_even_def)

text \<open>
  Claim C3: the tier of \<open>random_forest_predict\<close> is decided by its final score alone,
  by cutoffs closed below and tried from the highest: at least 80 gives CRITICAL, 60 to
  79 gives HIGH, 35 to 59 gives MEDIUM, below 35 gives LOW; so 80 gives CRITICAL, 79 and
  60 give HIGH, 59 and 35 give MEDIUM, 34 gives LOW, and no other tier is produced.
\<close>

theorem risk_level_cutoffs:
  "(80 \<le> score (random_forest_predict f)
      \<longrightarrow> risk_level (random_forest_predict f) = ''CRITICAL'')
   \<and> (60 \<le> score (random_forest_predict f) \<and> score (random_forest_predict f) < 80
      \<longrightarrow> risk_level (random_forest_predict f) = ''HIGH'')
   \<and> (35 \<le> score (random_forest_predict f) \<and> score (random_forest_predict f) < 60
      \<longrightarrow> risk_level (random_forest_predict f) = ''MEDIUM'')
   \<and> (score (random_forest_predict f) < 35
      \<longrightarrow> risk_level (random_forest_predict f) = ''LOW'')
   \<and> (score (random_forest_predict f) = 80
      \<longrightarrow> risk_level (random_forest_predict f) = ''CRITICAL'')
   \<and> (score (random_forest_predict f) = 79 \<or> score (random_forest_predict f) = 60
      \<longrightarrow> risk_level (random_forest_predict f) = ''HIGH'')
   \<and> (score (random_forest_predict f) = 59 \<or> score (random_forest_predict f) = 35
      \<longrightarrow> risk_level (random_forest_predict f) = ''MEDIUM'')
   \<and> (score (random_forest_predict f) = 34
      \<longrightarrow> risk_level (random_forest_predict f) = ''LOW'')
   \<and> risk_level (random_forest_predict f) \<in> {''LOW'', ''MEDIUM'', ''HIGH'', ''CRITICAL''}"
  by (simp add: random_forest_predict_def Let_def)

theorem risk_level_cutoffs_witness:
  "score (random_forest_predict features_80) = 80
   \<and> risk_level (random_forest_predict features_80) = ''CRITICAL''
   \<and> score (random_forest_predict features_79) = 79
   \<and> risk_level (random_forest_predict features_79) = ''HIGH''
   \<and> score (random_forest_predict features_60) = 60
   \<and> risk_level (random_forest_predict features_60) = ''HIGH''
   \<and> score (random_forest_predict features_59) = 59
   \<and> risk_level (random_forest_predict features_59) = ''MEDIUM''
   \<and> score (random_forest_predict features_35) = 35
   \<and> risk_level (random_forest_predict features_35) = ''MEDIUM''
   \<and> score (random_forest_predict features_34) = 34
   \<and> risk_level (random_forest_predict features_34) = ''LOW''"
  using risk_level_cutoffs [of features_80] risk_level_cutoffs [of features_79]
    risk_level_cutoffs [of features_60] risk_level_cutoffs [of features_59]
    risk_level_cutoffs [of features_35] risk_level_cutoffs [of features_34]
  by (simp add: boundary_scores)

section \<open>Properties of the flag list\<close>

lemma detect_flags_clean_iff: "detect_flags f = [clean_flag] \<longleftrightarrow> red_flags f = []"
proof
  assume eq: "detect_flags f = [clean_flag]"
  show "red_flags f = []"
  proof (rule ccontr)
    assume ne: "red_flags f \<noteq> []"
    then have "red_flags f = [clean_flag]"
      using eq by (simp add: detect_flags_cases)
    then have "clean_flag \<in> set (red_flags f)"
      by simp
    then show False
      using red_flags_not_clean by fastforce
  qed
next
  assume "red_flags f = []"
  then show "detect_flags f = [clean_flag]"
    by (simp add: detect_flags_cases)
qed

lemma count_detect_flags:
  "int (length (filter (\<lambda>x. code x \<noteq> ''clean'') (detect_flags f)))
     = (if red_flags f = [] then 0 else int (length (red_flags f)))"
  by (simp add: detect_flags_cases filter_red_flags)

lemma sum_signals_Nil: "sum_signals [] = 0"
  by (simp add: sum_signals_def)

lemma sum_signals_Cons: "sum_signals (b # bs) = (if b then 1 else 0) + sum_signals bs"
  by (simp add: sum_signals_def)

lemma length_flag_if: "int (length (flag_if c x)) = (if c then 1 else 0)"
  by (simp add: flag_if_def)

lemma length_red_flags: "int (length (red_flags f)) = sum_signals (red_flag_conditions f)"
  unfolding red_flags_def red_flag_conditions_def
  by (simp only: length_append of_nat_add length_flag_if sum_signals_Cons sum_signals_Nil
      add_0_right)

lemma count_red_flags:
  "int (length (filter (\<lambda>x. code x \<noteq> ''clean'') (detect_flags f)))
     = sum_signals (red_flag_conditions f)"
proof (cases "red_flags f = []")
  case True
  then show ?thesis
    using length_red_flags [of f] by (simp add: count_detect_flags)
next
  case False
  then show ?thesis
    by (simp add: count_detect_flags length_red_flags)
qed

lemma analyze_transaction_flags:
  assumes "analyze_transaction B data rnd now = Inr r"
  shows "\<exists>f. extract_features B data = Inr f \<and> res_flags r = detect_flags f
    \<and> res_flag_count r = int (length (filter (\<lambda>x. code x \<noteq> ''clean'') (detect_flags f)))"
proof (cases "extract_features B data")
  case (Inl e)
  then show ?thesis
    using assms by (simp add: analyze_transaction_def bind_result_def)
next
  case (Inr f)
  then show ?thesis
    using assms by (auto simp: analyze_transaction_def bind_result_def Let_def)
qed

lemma extract_empty: "extract_features B Map.empty = Inr features_default"
proof -
  have "fl 0 = 0"
    by (simp add: fl_def)
  moreover have "\<not> pow2 1024 \<le> (0 :: rat)"
    by (simp add: pow2_def)
  moreover have "lower B [] = []"
    by (simp add: lower_def)
  ultimately show ?thesis
    by (simp add: extract_features_def features_default_def bind_result_def dict_get_def
        py_float_def py_int_def py_str_def py_bool_def Let_def)
qed

lemma red_flags_default: "red_flags features_default = []"
  unfolding red_flags_Nil by (simp add: features_default_def feature_defs)

lemma red_flags_B: "red_flags features_B \<noteq> []"
  unfolding red_flags_Nil by (simp add: features_B_def feature_defs)

lemma conditions_A: "sum_signals (red_flag_conditions features_A) = 6"
  by (simp add: red_flag_conditions_def sum_signals_def features_A_def feature_defs)

text \<open>
  Claim C4: for every feature set the list of \<open>detect_flags\<close> is not empty; it is
  the single flag with code clean and severity NONE exactly when none of the twelve
  red-flag conditions holds. The flag list of an analysis result is the list of
  \<open>detect_flags\<close> on the features extracted from the input; its field flag_count is
  the number of its flags whose code is not clean, which is the number of the twelve
  conditions that hold of those features, and it is 0 exactly when the flag list is the
  clean flag alone, that is when none of the conditions holds.
\<close>

theorem detect_flags_clean_sentinel:
  "detect_flags f \<noteq> []
   \<and> code clean_flag = ''clean'' \<and> severity clean_flag = ''NONE''
   \<and> (detect_flags f = [clean_flag] \<longleftrightarrow>
        \<not> (is_sanctioned f \<or> (is_high_risk f \<and> \<not> is_sanctioned f) \<or> is_night f
           \<or> above_threshold f \<or> near_threshold f
           \<or> (is_new_account f \<and> fgt (amount f) 5000) \<or> is_high_velocity f
           \<or> kyc_incomplete f \<or> prev_flagged f
           \<or> (tx_type f = ''crypto'' \<and> is_high_risk f) \<or> is_pep f
           \<or> (is_round_amount f \<and> fgt (amount f) 5000)))
   \<and> (analyze_transaction B data rnd now = Inr r \<longrightarrow>
        (\<exists>g. extract_features B data = Inr g
           \<and> res_flags r = detect_flags g
           \<and> res_flag_count r = sum_signals (red_flag_conditions g)
           \<and> (res_flag_count r = 0 \<longleftrightarrow>
                \<not> (is_sanctioned g \<or> (is_high_risk g \<and> \<not> is_sanctioned g) \<or> is_night g
                   \<or> above_threshold g \<or> near_threshold g
                   \<or> (is_new_account g \<and> fgt (amount g) 5000) \<or> is_high_velocity g
                   \<or> kyc_incomplete g \<or> prev_flagged g
                   \<or> (tx_type g = ''crypto'' \<and> is_high_risk g) \<or> is_pep g
                   \<or> (is_round_amount g \<and> fgt (amount g) 5000))))
        \<and> res_flag_count r
          = int (length (filter (\<lambda>x. code x \<noteq> ''clean'') (res_flags r)))
        \<and> (res_flag_count r = 0 \<longleftrightarrow> res_flags r = [clean_flag]))"
proof -
  have "detect_flags f \<noteq> []"
    by (simp add: detect_flags_cases)
  moreover have "code clean_flag = ''clean''" "severity clean_flag = ''NONE''"
    by (simp_all add: clean_flag_def)
  moreover note detect_flags_clean_iff [of f, unfolded red_flags_Nil]
  moreover have "(\<exists>g. extract_features B data = Inr g
           \<and> res_flags r = detect_flags g
           \<and> res_flag_count r = sum_signals (red_flag_conditions g)
           \<and> (res_flag_count r = 0 \<longleftrightarrow>
                \<not> (is_sanctioned g \<or> (is_high_risk g \<and> \<not> is_sanctioned g) \<or> is_night g
                   \<or> above_threshold g \<or> near_threshold g
                   \<or> (is_new_account g \<and> fgt (amount g) 5000) \<or> is_high_velocity g
                   \<or> kyc_incomplete g \<or> prev_flagged g
                   \<or> (tx_type g = ''crypto'' \<and> is_high_risk g) \<or> is_pep g
                   \<or> (is_round_amount g \<and> fgt (amount g) 5000))))
        \<and> res_flag_count r
          = int (length (filter (\<lambda>x. code x \<noteq> ''clean'') (res_flags r)))
        \<and> (res_flag_count r = 0 \<longleftrightarrow> res_flags r = [clean_flag])"
    if ok: "analyze_transaction B data rnd now = Inr r"
  proof -
    obtain g where g: "extract_features B data = Inr g" "res_flags r = detect_flags g"
      "res_flag_count r = int (length (filter (\<lambda>x. code x \<noteq> ''clean'') (detect_flags g)))"
      using analyze_transaction_flags [OF ok] by blast
    have zero: "res_flag_count r = 0 \<longleftrightarrow> red_flags g = []"
      unfolding g(3) count_detect_flags by simp
    have count: "res_flag_count r = sum_signals (red_flag_conditions g)"
      unfolding g(3) by (rule count_red_flags)
    have "res_flag_count r = 0 \<longleftrightarrow> res_flags r = [clean_flag]"
      using zero by (simp add: g(2) detect_flags_clean_iff)
    moreover have "res_flag_count r
          = int (length (filter (\<lambda>x. code x \<noteq> ''clean'') (res_flags r)))"
      by (simp add: g(2,3))
    ultimately show ?thesis
      using g(1,2) count zero [unfolded red_flags_Nil] by blast
  qed
  ultimately show ?thesis
    by blast
qed

theorem detect_flags_clean_sentinel_witness:
  "map_sum id res_flags (analyze_transaction plain_builtins Map.empty 10000 [])
       = Inr [clean_flag]
   \<and> map_sum id res_flag_count (analyze_transaction plain_builtins Map.empty 10000 [])
       = Inr 0
   \<and> map_sum id res_flag_count (analyze_transaction plain_builtins scenario_A 10000 [])
       = Inr 6
   \<and> map_sum id res_flags (analyze_transaction plain_builtins scenario_A 10000 [])
       \<noteq> Inr [clean_flag]
   \<and> detect_flags features_default = [clean_flag]
   \<and> detect_flags features_B \<noteq> [clean_flag]"
proof -
  obtain r where r: "analyze_transaction plain_builtins Map.empty 10000 [] = Inr r"
    "res_flags r = detect_flags features_default"
    using analyze_transaction_Inr [OF extract_empty] by blast
  obtain a where a: "analyze_transaction plain_builtins scenario_A 10000 [] = Inr a"
    using analyze_transaction_Inr [OF extract_A] by blast
  have d: "detect_flags features_default = [clean_flag]"
    using detect_flags_clean_sentinel [of features_default]
      red_flags_default [unfolded red_flags_Nil] by blast
  have b: "detect_flags features_B \<noteq> [clean_flag]"
    using detect_flags_clean_sentinel [of features_B]
      red_flags_B [unfolded red_flags_Nil] by blast
  have r0: "res_flag_count r = 0"
    using detect_flags_clean_sentinel [of features_default plain_builtins Map.empty 10000 "[]" r]
      r d by simp
  have "\<exists>g. extract_features plain_builtins scenario_A = Inr g
      \<and> res_flag_count a = sum_signals (red_flag_conditions g)"
    using detect_flags_clean_sentinel [of features_default plain_builtins scenario_A 10000 "[]" a]
      a by blast
  then have a6: "res_flag_count a = 6"
    by (simp add: extract_A conditions_A)
  have "res_flag_count a = 0 \<longleftrightarrow> res_flags a = [clean_flag]"
    using detect_flags_clean_sentinel [of features_default plain_builtins scenario_A 10000 "[]" a]
      a by blast
  then have "res_flags a \<noteq> [clean_flag]"
    using a6 by simp
  then show ?thesis
    using r r0 a a6 d b by simp
qed

text \<open>
  Claim C5: for every feature set the list of \<open>detect_flags\<close> never holds both the
  flag sanctioned_country and the flag high_risk_country: the sanctioned flag, tested
  first, is at the head of the list when the country is sanctioned, and the
  high-risk-country flag is in the list exactly when the country is high-risk and not
  sanctioned.
\<close>

theorem sanctioned_excludes_high_risk_flag:
  "\<not> (''sanctioned_country'' \<in> set (map code (detect_flags f))
        \<and> ''high_risk_country'' \<in> set (map code (detect_flags f)))
   \<and> (''sanctioned_country'' \<in> set (map code (detect_flags f)) \<longleftrightarrow> is_sanctioned f)
   \<and> (''high_risk_country'' \<in> set (map code (detect_flags f))
        \<longleftrightarrow> is_high_risk f \<and> \<not> is_sanctioned f)
   \<and> (is_sanctioned f \<longrightarrow> take 1 (map code (detect_flags f)) = [''sanctioned_country''])"
proof -
  have s: "''sanctioned_country'' \<in> set (map code (detect_flags f)) \<longleftrightarrow> is_sanctioned f"
    unfolding codes_detect_flags red_flags_Nil codes_red_flags by auto
  have h: "''high_risk_country'' \<in> set (map code (detect_flags f))
        \<longleftrightarrow> is_high_risk f \<and> \<not> is_sanctioned f"
    unfolding codes_detect_flags red_flags_Nil codes_red_flags by auto
  have t: "take 1 (map code (detect_flags f)) = [''sanctioned_country'']" if "is_sanctioned f"
    unfolding codes_detect_flags red_flags_Nil codes_red_flags using that by simp
  show ?thesis
    using s h t by blast
qed

theorem sanctioned_excludes_high_risk_flag_witness:
  "is_sanctioned features_A \<and> is_high_risk features_A
   \<and> take 1 (map code (detect_flags features_A)) = [''sanctioned_country'']
   \<and> ''high_risk_country'' \<notin> set (map code (detect_flags features_A))"
proof -
  have "is_sanctioned features_A" "is_high_risk features_A"
    by (simp_all add: features_A_def feature_defs)
  then show ?thesis
    using sanctioned_excludes_high_risk_flag [of features_A] by blast
qed

section \<open>Defaults of the feature extraction\<close>

lemma bind_result_Inr_iff: "bind_result r k = Inr y \<longleftrightarrow> (\<exists>v. r = Inr v \<and> k v = Inr y)"
  by (cases r) (simp_all add: bind_result_def)

lemma extract_features_Inr_iff:
  "extract_features B data = Inr f \<longleftrightarrow>
     (\<exists>am co ty ho tc ag ks.
        py_float B (dict_get data ''amount'' (PyInt 0)) = Inr am
        \<and> py_str B (dict_get data ''country'' (PyStr '''')) = Inr co
        \<and> py_str B (dict_get data ''type'' (PyStr '''')) = Inr ty
        \<and> py_int B (dict_get data ''hour'' (PyInt 12)) = Inr ho
        \<and> py_int B (dict_get data ''tx_count_30d'' (PyInt 0)) = Inr tc
        \<and> py_int B (dict_get data ''account_age_months'' (PyInt 12)) = Inr ag
        \<and> py_int B (dict_get data ''kyc_status'' (PyInt 1)) = Inr ks
        \<and> f = make_features am (lower B co) (lower B ty) ho tc ag ks
              (py_bool (dict_get data ''previously_flagged'' (PyBool False)))
              (py_bool (dict_get data ''is_pep'' (PyBool False))))"
  unfolding extract_features_def bind_result_Inr_iff Let_def by auto

lemma extract_features_consistent:
  assumes "extract_features B data = Inr f"
  shows "is_sanctioned f = (country f \<in> SANCTIONED_COUNTRIES)
    \<and> is_high_risk f = (country f \<in> HIGH_RISK_COUNTRIES)"
proof -
  obtain am co ty ho tc ag ks pf pep where "f = make_features am co ty ho tc ag ks pf pep"
    using assms unfolding extract_features_Inr_iff by blast
  then show ?thesis
    by (simp add: make_features_def)
qed



lemma py_str_entry:
  assumes "\<forall>i. v = Some (PyInt i) \<longrightarrow> \<bar>i\<bar> < 10 ^ INT_MAX_STR_DIGITS"
  obtains s where "py_str B (case v of None \<Rightarrow> PyStr [] | Some w \<Rightarrow> w) = Inr s"
    and "v = None \<longrightarrow> s = []"
proof (cases v)
  case None
  then show thesis
    using that [of "[]"] by (simp add: py_str_def)
next
  case (Some w)
  show thesis
  proof (cases w)
    case (PyInt i)
    then have "\<bar>i\<bar> < 10 ^ INT_MAX_STR_DIGITS"
      using assms Some by simp
    then show thesis
      using that [of "str_int i"] Some PyInt by (simp add: py_str_def)
  next
    case PyNone
    then show thesis
      using that [of "''None''"] Some by (simp add: py_str_def)
  next
    case (PyBool b)
    then show thesis
      using that [of "if b then ''True'' else ''False''"] Some by (simp add: py_str_def)
  next
    case (PyFloat x)
    then show thesis
      using that [of "str_of_float B x"] Some by (simp add: py_str_def)
  next
    case (PyStr t)
    then show thesis
      using that [of t] Some by (simp add: py_str_def)
  qed
qed





lemma extract_features_country_raises:
  assumes "py_float B (dict_get data ''amount'' (PyInt 0)) = Inr a"
    and "data ''country'' = Some (PyInt i)" and "10 ^ INT_MAX_STR_DIGITS \<le> \<bar>i\<bar>"
  shows "extract_features B data = Inl ValueError"
  using assms by (simp add: extract_features_def bind_result_def dict_get_def py_str_def)





section \<open>Crypto transfers to sanctioned countries\<close>

lemma sanctioned_subset_high_risk: "SANCTIONED_COUNTRIES \<subseteq> HIGH_RISK_COUNTRIES"
  by (simp add: SANCTIONED_COUNTRIES_def HIGH_RISK_COUNTRIES_def)

text \<open>
  Claim C7: every sanctioned country is a high-risk country, so for every feature set of
  type crypto whose country is sanctioned (the two country features being those of its
  country) both the crypto and high-risk bonus 55 and the crypto and sanctioned bonus 60
  are added in Tree 3: the score before the clamp is 115, plus 20 at night, and
  \<open>tree_type_country_combo\<close> returns exactly 100.
\<close>

theorem crypto_sanctioned_stacks:
  assumes "tx_type f = ''crypto''"
    and "country f \<in> SANCTIONED_COUNTRIES"
    and "is_sanctioned f = (country f \<in> SANCTIONED_COUNTRIES)"
    and "is_high_risk f = (country f \<in> HIGH_RISK_COUNTRIES)"
  shows "SANCTIONED_COUNTRIES \<subseteq> HIGH_RISK_COUNTRIES
    \<and> tree_type_country_combo_score f = 55 + 60 + bonus (is_night f) 20
    \<and> tree_type_country_combo f = 100"
proof -
  have s: "is_sanctioned f" and h: "is_high_risk f"
    using assms sanctioned_subset_high_risk by auto
  have raw: "tree_type_country_combo_score f = 55 + 60 + bonus (is_night f) 20"
    by (simp add: tree_type_country_combo_score_def bonus_def s h assms(1))
  then have "tree_type_country_combo f = 100"
    by (simp add: tree_type_country_combo_def bonus_def)
  then show ?thesis
    using raw sanctioned_subset_high_risk by simp
qed

theorem crypto_sanctioned_stacks_witness:
  "tx_type features_crypto_kp = ''crypto''
   \<and> country features_crypto_kp \<in> SANCTIONED_COUNTRIES
   \<and> \<not> is_night features_crypto_kp
   \<and> tree_type_country_combo_score features_crypto_kp = 115
   \<and> tree_type_country_combo features_crypto_kp = 100"
proof -
  have a: "tx_type features_crypto_kp = ''crypto''"
    "country features_crypto_kp \<in> SANCTIONED_COUNTRIES"
    "is_sanctioned features_crypto_kp = (country features_crypto_kp \<in> SANCTIONED_COUNTRIES)"
    "is_high_risk features_crypto_kp = (country features_crypto_kp \<in> HIGH_RISK_COUNTRIES)"
    "\<not> is_night features_crypto_kp"
    by (simp_all add: features_crypto_kp_def feature_defs)
  show ?thesis
    using crypto_sanctioned_stacks [OF a(1-4)] a(1,2,5) by (simp add: bonus_def)
qed

section \<open>Sanctioned names\<close>

lemma analyze_kyc_Inr:
  assumes "py_str B (dict_get data ''name'' (PyStr '''')) = Inr n"
    and "py_str B (dict_get data ''nationality'' (PyStr '''')) = Inr na"
    and "py_str B (dict_get data ''occupation'' (PyStr '''')) = Inr oc"
    and "py_str B (dict_get data ''country'' (PyStr '''')) = Inr co"
  shows "\<exists>r. analyze_kyc B data now = Inr r
    \<and> kyc_sanctions_match r
        = list_ex (\<lambda>name_part. sublist name_part (lower B n)) SANCTIONS_LIST
    \<and> kyc_str_required r = kyc_sanctions_match r
    \<and> (kyc_sanctions_match r \<longrightarrow>
         90 \<le> kyc_risk_score r \<and> kyc_risk_level r = ''CRITICAL''
         \<and> kyc_cdd_level r = ''EDD'')
    \<and> kyc_risk_score r \<le> 100"
  by (simp add: analyze_kyc_def bind_result_def Let_def assms)

lemma analyze_kyc_result:
  assumes "analyze_kyc B data now = Inr r"
  shows "kyc_str_required r = kyc_sanctions_match r
    \<and> (kyc_sanctions_match r \<longrightarrow>
         90 \<le> kyc_risk_score r \<and> kyc_risk_level r = ''CRITICAL''
         \<and> kyc_cdd_level r = ''EDD'')"
proof -
  obtain n na oc co where c: "py_str B (dict_get data ''name'' (PyStr '''')) = Inr n"
    "py_str B (dict_get data ''nationality'' (PyStr '''')) = Inr na"
    "py_str B (dict_get data ''occupation'' (PyStr '''')) = Inr oc"
    "py_str B (dict_get data ''country'' (PyStr '''')) = Inr co"
    using assms unfolding analyze_kyc_def bind_result_Inr_iff by blast
  show ?thesis
    using analyze_kyc_Inr [OF c, of now] assms by auto
qed

lemma analyze_kyc_country_raises:
  assumes "data ''name'' = Some (PyStr n)"
    and "data ''nationality'' = None" and "data ''occupation'' = None"
    and "data ''country'' = Some (PyInt i)" and "10 ^ INT_MAX_STR_DIGITS \<le> \<bar>i\<bar>"
  shows "analyze_kyc B data now = Inl ValueError"
  using assms by (simp add: analyze_kyc_def bind_result_def dict_get_def py_str_def)

lemma putin_in_list: "''putin vladimir'' \<in> set SANCTIONS_LIST"
  by (simp add: SANCTIONS_LIST_def)

text \<open>
  Claim C8: for every KYC input whose name is text that, in lower case, contains putin
  vladimir, \<open>analyze_kyc\<close> returns a result with sanctions_match true, a risk score of
  at least 90, tier CRITICAL, CDD level EDD and str_required true, whatever nationality,
  occupation and country hold: they may be missing, \<^verbatim>\<open>None\<close>, a bool, a float, any text,
  or an integer of at most 4300 digits. In every result of \<open>analyze_kyc\<close>
  str_required equals sanctions_match.
\<close>

theorem kyc_putin_vladimir:
  assumes "data ''name'' = Some (PyStr n)"
    and "sublist ''putin vladimir'' (lower B n)"
    and "\<forall>k \<in> {''nationality'', ''occupation'', ''country''}.
      \<forall>i. data k = Some (PyInt i) \<longrightarrow> \<bar>i\<bar> < 10 ^ INT_MAX_STR_DIGITS"
  shows "(\<exists>r. analyze_kyc B data now = Inr r
      \<and> kyc_sanctions_match r
      \<and> 90 \<le> kyc_risk_score r
      \<and> kyc_risk_level r = ''CRITICAL''
      \<and> kyc_cdd_level r = ''EDD''
      \<and> kyc_str_required r)
    \<and> (analyze_kyc B' data' now' = Inr r'
         \<longrightarrow> kyc_str_required r' = kyc_sanctions_match r')"
proof -
  have name: "py_str B (dict_get data ''name'' (PyStr '''')) = Inr n"
    by (simp add: dict_get_def py_str_def assms(1))
  have strs: "\<forall>i. data ''nationality'' = Some (PyInt i) \<longrightarrow> \<bar>i\<bar> < 10 ^ INT_MAX_STR_DIGITS"
    "\<forall>i. data ''occupation'' = Some (PyInt i) \<longrightarrow> \<bar>i\<bar> < 10 ^ INT_MAX_STR_DIGITS"
    "\<forall>i. data ''country'' = Some (PyInt i) \<longrightarrow> \<bar>i\<bar> < 10 ^ INT_MAX_STR_DIGITS"
    using assms(3) by blast+
  obtain na where na: "py_str B (dict_get data ''nationality'' (PyStr '''')) = Inr na"
    unfolding dict_get_def by (rule py_str_entry [OF strs(1)])
  obtain oc where oc: "py_str B (dict_get data ''occupation'' (PyStr '''')) = Inr oc"
    unfolding dict_get_def by (rule py_str_entry [OF strs(2)])
  obtain co where co: "py_str B (dict_get data ''country'' (PyStr '''')) = Inr co"
    unfolding dict_get_def by (rule py_str_entry [OF strs(3)])
  obtain r where r: "analyze_kyc B data now = Inr r"
    "kyc_sanctions_match r
        = list_ex (\<lambda>name_part. sublist name_part (lower B n)) SANCTIONS_LIST"
    "kyc_str_required r = kyc_sanctions_match r"
    "kyc_sanctions_match r \<longrightarrow>
         90 \<le> kyc_risk_score r \<and> kyc_risk_level r = ''CRITICAL''
         \<and> kyc_cdd_level r = ''EDD''"
    using analyze_kyc_Inr [OF name na oc co, of now] by blast
  have hit: "kyc_sanctions_match r"
    unfolding r(2) list_ex_iff using putin_in_list assms(2) by blast
  have 1: "\<exists>r. analyze_kyc B data now = Inr r
      \<and> kyc_sanctions_match r
      \<and> 90 \<le> kyc_risk_score r
      \<and> kyc_risk_level r = ''CRITICAL''
      \<and> kyc_cdd_level r = ''EDD''
      \<and> kyc_str_required r"
    using r hit by blast
  have 2: "analyze_kyc B' data' now' = Inr r'
         \<longrightarrow> kyc_str_required r' = kyc_sanctions_match r'"
    using analyze_kyc_result [of B' data' now' r'] by blast
  show ?thesis
    by (rule conjI [OF 1 2])
qed

lemma lower_putin:
  "lower B ''Mr. PUTIN Vladimir V.'' = ''mr. putin vladimir v.''"
  by (simp add: lower_def lower_char_def is_ascii_def)

lemma sublist_putin: "sublist ''putin vladimir'' ''mr. putin vladimir v.''"
proof -
  have "''mr. putin vladimir v.'' = ''mr. '' @ ''putin vladimir'' @ '' v.''"
    by simp
  then show ?thesis
    unfolding sublist_def by blast
qed

lemma kyc_input_putin_fields:
  "kyc_input_putin ''name'' = Some (PyStr ''Mr. PUTIN Vladimir V.'')"
  "\<forall>k \<in> {''nationality'', ''occupation'', ''country''}.
      \<forall>i. kyc_input_putin k = Some (PyInt i) \<longrightarrow> \<bar>i\<bar> < 10 ^ INT_MAX_STR_DIGITS"
  by (simp_all add: kyc_input_putin_def)

lemma kyc_putin_returns:
  "\<exists>r. analyze_kyc plain_builtins kyc_input_putin now = Inr r"
proof -
  have "py_str plain_builtins (dict_get kyc_input_putin ''name'' (PyStr ''''))
      = Inr ''Mr. PUTIN Vladimir V.''"
    "py_str plain_builtins (dict_get kyc_input_putin ''nationality'' (PyStr '''')) = Inr ''EG''"
    "py_str plain_builtins (dict_get kyc_input_putin ''occupation'' (PyStr ''''))
      = Inr ''Teacher''"
    "py_str plain_builtins (dict_get kyc_input_putin ''country'' (PyStr '''')) = Inr ''eg''"
    by (simp_all add: kyc_input_putin_def dict_get_def py_str_def)
  then show ?thesis
    using analyze_kyc_Inr by blast
qed

theorem kyc_putin_vladimir_witness:
  "kyc_input_putin ''name'' = Some (PyStr ''Mr. PUTIN Vladimir V.'')
   \<and> sublist ''putin vladimir'' (lower plain_builtins ''Mr. PUTIN Vladimir V.'')
   \<and> map_sum id kyc_sanctions_match (analyze_kyc plain_builtins kyc_input_putin [])
       = Inr True
   \<and> map_sum id kyc_risk_level (analyze_kyc plain_builtins kyc_input_putin [])
       = Inr ''CRITICAL''
   \<and> map_sum id kyc_cdd_level (analyze_kyc plain_builtins kyc_input_putin []) = Inr ''EDD''
   \<and> map_sum id kyc_str_required (analyze_kyc plain_builtins kyc_input_putin [])
       = Inr True"
proof -
  have b: "sublist ''putin vladimir'' (lower plain_builtins ''Mr. PUTIN Vladimir V.'')"
    unfolding lower_putin by (rule sublist_putin)
  have "\<exists>r. analyze_kyc plain_builtins kyc_input_putin [] = Inr r
      \<and> kyc_sanctions_match r
      \<and> 90 \<le> kyc_risk_score r
      \<and> kyc_risk_level r = ''CRITICAL''
      \<and> kyc_cdd_level r = ''EDD''
      \<and> kyc_str_required r"
    by (rule conjunct1 [OF kyc_putin_vladimir [OF kyc_input_putin_fields(1) b
          kyc_input_putin_fields(2)]])
  then obtain r where "analyze_kyc plain_builtins kyc_input_putin [] = Inr r"
    "kyc_sanctions_match r" "kyc_risk_level r = ''CRITICAL''" "kyc_cdd_level r = ''EDD''"
    "kyc_str_required r"
    by blast
  then show ?thesis
    using kyc_input_putin_fields(1) b by simp
qed

section \<open>Determinism\<close>

text \<open>
  Claim C9: two runs of \<open>analyze_transaction\<close> on the same input, whatever the random
  numbers and the clock readings of the two runs, either raise the same error or return
  results with the same final score, tier, per-tree scores, flag list, flag count and
  recommendation; a transaction id that the input supplies is the same as well.
\<close>

theorem analyze_transaction_deterministic:
  "map_sum id (\<lambda>r. (res_score r, res_risk_level r, res_tree_scores r, res_flags r,
        res_flag_count r, res_recommendation r))
      (analyze_transaction B data rnd1 now1)
   = map_sum id (\<lambda>r. (res_score r, res_risk_level r, res_tree_scores r, res_flags r,
        res_flag_count r, res_recommendation r))
      (analyze_transaction B data rnd2 now2)
   \<and> (data ''transaction_id'' \<noteq> None \<longrightarrow>
        map_sum id res_transaction_id (analyze_transaction B data rnd1 now1)
        = map_sum id res_transaction_id (analyze_transaction B data rnd2 now2))"
proof (cases "extract_features B data")
  case (Inl e)
  then show ?thesis
    by (simp add: analyze_transaction_def bind_result_def)
next
  case (Inr f)
  then show ?thesis
    by (auto simp: analyze_transaction_def bind_result_def Let_def dict_get_def)
qed

lemma scenario_A_id: "scenario_A ''transaction_id'' = None"
  by (simp add: scenario_A_def tx_input_def)

theorem analyze_transaction_deterministic_witness:
  "(scenario_A(''transaction_id'' \<mapsto> PyStr ''T1'')) ''transaction_id'' \<noteq> None
   \<and> map_sum id res_transaction_id
        (analyze_transaction plain_builtins (scenario_A(''transaction_id'' \<mapsto> PyStr ''T1''))
           10000 ''09:00'')
     = map_sum id res_transaction_id
        (analyze_transaction plain_builtins (scenario_A(''transaction_id'' \<mapsto> PyStr ''T1''))
           99999 ''17:30'')"
proof -
  have h: "(scenario_A(''transaction_id'' \<mapsto> PyStr ''T1'')) ''transaction_id'' \<noteq> None"
    by simp
  show ?thesis
    using analyze_transaction_deterministic
        [of plain_builtins "scenario_A(''transaction_id'' \<mapsto> PyStr ''T1'')"
          10000 "''09:00''" 99999 "''17:30''"] h
    by blast
qed

section \<open>STR and due diligence\<close>

text \<open>
  Claim C10: for every KYC input, a result with str_required true has CDD level EDD: a
  sanctions match adds 90 to the risk score, which makes the tier CRITICAL and the CDD
  level EDD.
\<close>

theorem str_required_implies_edd:
  "analyze_kyc B data now = Inr r \<longrightarrow> kyc_str_required r \<longrightarrow>
     kyc_risk_level r = ''CRITICAL'' \<and> kyc_cdd_level r = ''EDD''"
  using analyze_kyc_result [of B data now r] by blast

lemma kyc_putin_hit:
  "analyze_kyc plain_builtins kyc_input_putin [] = Inr r \<Longrightarrow> kyc_str_required r"
proof -
  assume r: "analyze_kyc plain_builtins kyc_input_putin [] = Inr r"
  have c: "py_str plain_builtins (dict_get kyc_input_putin ''name'' (PyStr ''''))
      = Inr ''Mr. PUTIN Vladimir V.''"
    "py_str plain_builtins (dict_get kyc_input_putin ''nationality'' (PyStr '''')) = Inr ''EG''"
    "py_str plain_builtins (dict_get kyc_input_putin ''occupation'' (PyStr ''''))
      = Inr ''Teacher''"
    "py_str plain_builtins (dict_get kyc_input_putin ''country'' (PyStr '''')) = Inr ''eg''"
    by (simp_all add: kyc_input_putin_def dict_get_def py_str_def)
  have "kyc_sanctions_match r
      = list_ex (\<lambda>name_part. sublist name_part
          (lower plain_builtins ''Mr. PUTIN Vladimir V.'')) SANCTIONS_LIST"
    and s: "kyc_str_required r = kyc_sanctions_match r"
    using analyze_kyc_Inr [OF c, of "[]"] r by auto
  then have "kyc_sanctions_match r"
    unfolding lower_putin list_ex_iff using putin_in_list sublist_putin by blast
  then show ?thesis
    using s by simp
qed

theorem str_required_implies_edd_witness:
  "map_sum id kyc_str_required (analyze_kyc plain_builtins kyc_input_putin []) = Inr True
   \<and> map_sum id kyc_risk_level (analyze_kyc plain_builtins kyc_input_putin [])
       = Inr ''CRITICAL''
   \<and> map_sum id kyc_cdd_level (analyze_kyc plain_builtins kyc_input_putin []) = Inr ''EDD''"
proof -
  obtain r where r: "analyze_kyc plain_builtins kyc_input_putin [] = Inr r"
    using kyc_putin_returns by blast
  have h: "kyc_str_required r"
    by (rule kyc_putin_hit [OF r])
  have "kyc_risk_level r = ''CRITICAL'' \<and> kyc_cdd_level r = ''EDD''"
    using str_required_implies_edd [of plain_builtins kyc_input_putin "[]" r] r h by blast
  then show ?thesis
    using r h by simp
qed

end
